theory Spec2Isabelle
  imports Main "HOL-Library.Sublist"
begin

section \<open>Types (types.ts, lines 1-19 of src/unnamed/part_000)\<close>

text \<open>
  The four union types of string literals are closed enumerations. \<open>FloorEffect\<close> and
  \<open>TurntableTint\<close> share the literals none, red and yellow, so their constructors carry
  the type as a prefix.
\<close>

datatype ProcessingStatus = Pending | Processing | Done | Error

datatype ProcessingMode = Full | PartialWall | TurntableTint | TintTurntableOnly

datatype FloorEffect = FloorNone | FloorDesaturate | FloorRed | FloorYellow

datatype TurntableTint = TintNone | TintRed | TintYellow

text \<open>
  The service receives \<open>Partial<ProcessingOptions>\<close>: every field may be undefined,
  which is \<open>None\<close> here.
\<close>

record ProcessingOptions =
  floorEffect :: "FloorEffect option"
  matchReflections :: "bool option"
  turntableTint :: "TurntableTint option"

text \<open>
  A browser \<open>File\<close>: its name, its media type, and what a \<open>FileReader\<close> delivers for
  it. \<open>base64\<close> is the payload after the comma of the data URL that
  \<open>readAsDataURL\<close> produces, and \<open>None\<close> when the reader fires \<open>onerror\<close>.
\<close>

record File =
  name :: string
  type :: string
  base64 :: "string option"

text \<open>
  A value that was thrown, or with which a promise was rejected: an \<open>Error\<close> object
  with its message, a \<open>TypeError\<close> that the engine raises, with its message, or
  anything else (the reader's error event, for one).
\<close>

datatype thrown = ErrorObj string | TypeErrorObj string | OtherValue

record ProcessedImage =
  image_id :: string
  originalFile :: File
  originalUrl :: string
  processedUrl :: "string option"
  status :: ProcessingStatus
  error :: "string option"

section \<open>The request and the response of the image model\<close>

record InlineData =
  data :: string
  mimeType :: string

record Part =
  inlineData :: "InlineData option"
  part_text :: "string option"

datatype Modality = IMAGE | TEXT

record GenerateContentParameters =
  model :: string
  contents :: "Part list"
  responseModalities :: "Modality list"

text \<open>
  The client library delivers a candidate without \<open>content\<close> (an answer that was
  blocked, for one) and a content without \<open>parts\<close>; \<open>candidates\<close> may be
  undefined as well.
\<close>

record Content =
  parts :: "Part list option"

record Candidate =
  content :: "Content option"

record GenerateContentResponse =
  candidates :: "Candidate list option"

text \<open>
  Modelled from the spec: the accessor \<open>response.text\<close> of the client library, which
  is not under src/. It is the text that the response carries (sections 4.2 and 6 of the
  spec: parts are inline binary or text, and a refusal is the text of a text part). The
  library takes it from the first candidate: the texts of its text parts, joined in
  their order, and undefined when that candidate has no text part. A text part with the
  empty text makes it the empty string.
\<close>

definition response_text :: "GenerateContentResponse \<Rightarrow> string option" where
  "response_text response =
     (case candidates response of
        None \<Rightarrow> None
      | Some [] \<Rightarrow> None
      | Some (first # others) \<Rightarrow>
          (case content first of
             None \<Rightarrow> None
           | Some c \<Rightarrow>
               (case parts c of
                  None \<Rightarrow> None
                | Some ps \<Rightarrow>
                    if List.map_filter part_text ps = [] then None
                    else Some (concat (List.map_filter part_text ps)))))"

section \<open>The texts of the prompts (services/geminiService.ts)\<close>

text \<open>Lines 32-34 of geminiService.ts, the template up to the interpolated tint.\<close>

definition tintOnly_head :: string where
  \<open>tintOnly_head = ''Your task is to perform a highly specific and subtle edit on the provided image of a car on a turntable. Follow these instructions precisely:\<newline>1. Identify the circular rotating platform/turntable beneath the car.\<newline>2. Apply a transparent ''\<close>

text \<open>Lines 34-36, the template after the interpolated tint.\<close>

definition tintOnly_tail :: string where
  \<open>tintOnly_tail = '' color overlay with exactly 15% opacity ONLY to the top surface of the turntable. The turntable's original texture, details, and any shadows on it must remain clearly visible underneath the color tint.\<newline>3. CRITICAL: You must NOT change anything else in the image. The car, the shadows, the walls, and the floor surrounding the turntable must remain completely untouched and identical to the original image.\<newline>The final output must be a single, high-resolution image that is identical to the input except for the subtle color tint on the turntable. Do not include any text, borders, or annotations.''\<close>

text \<open>Lines 50-55, the whole prompt of mode full.\<close>

definition full_text :: string where
  \<open>full_text = ''Analyze the two images provided. The first image contains a car. The second image is a new background. Your task is to perform the following steps: \<newline>1. Accurately isolate the car from its original background in the first image. \<newline>2. Place the isolated car onto the new background provided in the second image. \<newline>3. Generate a natural and realistic shadow for the car on the new background, making sure the shadow's direction, softness, and intensity are consistent with the lighting conditions of the background. \<newline>4. Blend the car seamlessly into the new environment to create a photorealistic composite image. \<newline>The final output must be a single, high-resolution composite image, aiming for 3000 pixels on the longest side. Do not include any text in the output.''\<close>

text \<open>Lines 57-62, the five fixed steps of mode partial-wall.\<close>

definition partialWall_base :: string where
  \<open>partialWall_base = ''Analyze the two images provided. The first image contains a car in its original setting (e.g., a studio). The second image is a new background/scene. Your task is to create a composite image by following these steps:\<newline>1. In the first image, identify the car and the horizontal line that separates the floor from the wall/background.\<newline>2. Keep the original floor from the first image. The car and its shadow on the floor must be preserved perfectly.\<newline>3. Replace the original background area above the floor (the wall) with the new background from the second image. The new background should be realistically scaled and perspectively matched to the scene.\<newline>4. Create a seamless, natural-looking transition between the retained floor and the new upper background.\<newline>5. The car should remain in its original position on its original floor, but now set against the new background. Ensure the lighting on the car is consistent with the new background environment.''\<close>

text \<open>Line 67, after the interpolated counter and its full stop.\<close>

definition floor_desaturate :: string where
  \<open>floor_desaturate = ''The original floor that is kept must be converted to black and white (fully desaturated). This is a critical requirement.''\<close>

text \<open>Line 71, likewise.\<close>

definition floor_red :: string where
  \<open>floor_red = ''Apply a transparent red color overlay with 15% opacity to the entire floor area that is being kept. The original floor texture and shadows must remain clearly visible beneath this subtle color tint. This is a critical requirement.''\<close>

text \<open>Line 75, likewise.\<close>

definition floor_yellow :: string where
  \<open>floor_yellow = ''Apply a transparent yellow color overlay with 15% opacity to the entire floor area that is being kept. The original floor texture and shadows must remain clearly visible beneath this subtle color tint. This is a critical requirement.''\<close>

text \<open>Line 81, likewise.\<close>

definition reflections :: string where
  \<open>reflections = ''Crucially, you must also meticulously adjust the reflections on the car's bodywork, windows, and wheels to realistically mirror the new background environment. This is a critical requirement for a photorealistic result.''\<close>

text \<open>Line 98, likewise.\<close>

definition tint_red :: string where
  \<open>tint_red = ''CRITICAL INSTRUCTION: Apply a transparent red color overlay with exactly 15% opacity ONLY to the top surface of the turntable. The turntable's original texture, details, and the car's shadow must remain clearly visible underneath this color tint.''\<close>

text \<open>Line 102, likewise.\<close>

definition tint_yellow :: string where
  \<open>tint_yellow = ''CRITICAL INSTRUCTION: Apply a transparent yellow color overlay with exactly 15% opacity ONLY to the top surface of the turntable. The turntable's original texture, details, and the car's shadow must remain clearly visible underneath this color tint.''\<close>

text \<open>Lines 85-86 and 106-107 (the same template), the closing clause with its leading line break.\<close>

definition closing :: string where
  \<open>closing = ''\<newline>The final output must be a single, high-resolution composite image, aiming for 3000 pixels on the longest side. Do not include any text, borders, or annotations.''\<close>

text \<open>Lines 88-93, the five fixed steps of mode turntable-tint.\<close>

definition turntable_base :: string where
  \<open>turntable_base = ''Analyze the two images provided. The first image contains a car on a circular rotating platform/turntable. The second image is a new background. Your task is to create a composite image by following these strict steps:\<newline>1. Precisely identify and isolate the car and the complete circular turntable it rests on from the original background.\<newline>2. Preserve the car and the turntable perfectly.\<newline>3. Replace the entire original background, including the floor surrounding the turntable and the walls, with the new background from the second image. The new background must appear seamlessly behind and around the turntable.\<newline>4. Generate a natural, realistic shadow for the car on the turntable's surface, ensuring it is consistent with the lighting of the new background.\<newline>5. Create a photorealistic composite image.''\<close>

text \<open>Line 148, the refinement template up to the interpolated instruction.\<close>

definition correct_head :: string where
  \<open>correct_head = ''Based on the user's feedback, please refine the provided image. The user's instruction is: "''\<close>

text \<open>Lines 148-152, the refinement template after the interpolated instruction.\<close>

definition correct_tail :: string where
  \<open>correct_tail = ''". \<newline>  \<newline>  Your task is to apply this change subtly and realistically, maintaining the overall quality and composition of the image. \<newline>  \<newline>  The final output must be a single, high-resolution composite image, aiming for 3000 pixels on the longest side. Do not include any text, annotations, or borders. Only return the modified image.''\<close>

section \<open>The generation client (services/geminiService.ts)\<close>

text \<open>Lines 4-16. The reader rejects with its error event, which is no \<open>Error\<close> object.\<close>

definition fileToBase64 :: "File \<Rightarrow> thrown + InlineData" where
  "fileToBase64 file =
     (case base64 file of
        None \<Rightarrow> Inl OtherValue
      | Some d \<Rightarrow> Inr \<lparr>data = d, mimeType = type file\<rparr>)"

text \<open>How a template literal renders a number: its decimal digits.\<close>

definition digit :: "nat \<Rightarrow> char" where
  "digit d = ''0123456789'' ! d"

fun decimal :: "nat \<Rightarrow> string" where
  "decimal n = (if n < 10 then [digit n] else decimal (n div 10) @ [digit (n mod 10)])"

declare decimal.simps [simp del]

text \<open>How a template literal renders \<open>options.turntableTint\<close>.\<close>

fun tint_literal :: "TurntableTint option \<Rightarrow> string" where
  "tint_literal None = ''undefined''"
| "tint_literal (Some TintNone) = ''none''"
| "tint_literal (Some TintRed) = ''red''"
| "tint_literal (Some TintYellow) = ''yellow''"

text \<open>
  Lines 64-77: the floor clause. The pair is the local state of the builder, the prompt
  so far and \<open>instructionCounter\<close>.
\<close>

definition floor_clause :: "ProcessingOptions \<Rightarrow> string \<times> nat \<Rightarrow> string \<times> nat" where
  "floor_clause options = (\<lambda>(p, instructionCounter).
     if floorEffect options = Some FloorDesaturate
     then (p @ ''\<newline>'' @ decimal instructionCounter @ ''. '' @ floor_desaturate, instructionCounter + 1)
     else if floorEffect options = Some FloorRed
     then (p @ ''\<newline>'' @ decimal instructionCounter @ ''. '' @ floor_red, instructionCounter + 1)
     else if floorEffect options = Some FloorYellow
     then (p @ ''\<newline>'' @ decimal instructionCounter @ ''. '' @ floor_yellow, instructionCounter + 1)
     else (p, instructionCounter))"

text \<open>Lines 79-83: the reflections clause, when \<open>options.matchReflections\<close> is truthy.\<close>

definition reflections_clause :: "ProcessingOptions \<Rightarrow> string \<times> nat \<Rightarrow> string \<times> nat" where
  "reflections_clause options = (\<lambda>(p, instructionCounter).
     if matchReflections options = Some True
     then (p @ ''\<newline>'' @ decimal instructionCounter @ ''. '' @ reflections, instructionCounter + 1)
     else (p, instructionCounter))"

text \<open>Lines 95-104: the tint clause of mode turntable-tint.\<close>

definition tint_clause :: "ProcessingOptions \<Rightarrow> string \<times> nat \<Rightarrow> string \<times> nat" where
  "tint_clause options = (\<lambda>(p, instructionCounter).
     if turntableTint options = Some TintRed
     then (p @ ''\<newline>'' @ decimal instructionCounter @ ''. '' @ tint_red, instructionCounter + 1)
     else if turntableTint options = Some TintYellow
     then (p @ ''\<newline>'' @ decimal instructionCounter @ ''. '' @ tint_yellow, instructionCounter + 1)
     else (p, instructionCounter))"

text \<open>
  The value of the local variable \<open>prompt\<close> of \<open>processCarImage\<close> when it is put into
  the request (lines 31-36 and 49-108).
\<close>

definition prompt :: "ProcessingMode \<Rightarrow> ProcessingOptions \<Rightarrow> string" where
  "prompt mode options =
     (case mode of
        TintTurntableOnly \<Rightarrow> tintOnly_head @ tint_literal (turntableTint options) @ tintOnly_tail
      | Full \<Rightarrow> full_text
      | PartialWall \<Rightarrow>
          fst (reflections_clause options (floor_clause options (partialWall_base, 6))) @ closing
      | TurntableTint \<Rightarrow>
          fst (tint_clause options (turntable_base, 6)) @ closing)"

definition textPart :: "string \<Rightarrow> Part" where
  "textPart t = \<lparr>inlineData = None, part_text = Some t\<rparr>"

definition inlinePart :: "InlineData \<Rightarrow> Part" where
  "inlinePart d = \<lparr>inlineData = Some d, part_text = None\<rparr>"

text \<open>
  Lines 28-110: the parts of the request. The missing background is detected after the
  car image was read and before anything is sent.
\<close>

definition requestParts ::
  "InlineData \<Rightarrow> File option \<Rightarrow> ProcessingMode \<Rightarrow> ProcessingOptions \<Rightarrow> thrown + Part list" where
  "requestParts carImage backgroundImageFile mode options =
     (if mode = TintTurntableOnly
      then Inr [textPart (prompt mode options), inlinePart carImage]
      else
        (case backgroundImageFile of
           None \<Rightarrow> Inl (ErrorObj ''A background image is required for this processing mode.'')
         | Some bg \<Rightarrow>
             (case fileToBase64 bg of
                Inl e \<Rightarrow> Inl e
              | Inr backgroundImage \<Rightarrow>
                  Inr (textPart (prompt mode options)
                       # [inlinePart carImage, inlinePart backgroundImage]))))"

text \<open>Lines 126 and 172: the data URL that is returned for an image part.\<close>

definition dataUrl :: "InlineData \<Rightarrow> string" where
  "dataUrl d = ''data:'' @ mimeType d @ '';base64,'' @ data d"

text \<open>
  Lines 121-129 and 167-175, which are the same statements: the inner loop returns at
  the first part that has inline data of an image type, the outer loop runs it over the
  candidates in order.
\<close>

fun scanParts :: "Part list \<Rightarrow> string option" where
  "scanParts [] = None"
| "scanParts (part # rest) =
     (case inlineData part of
        None \<Rightarrow> scanParts rest
      | Some d \<Rightarrow> if prefix ''image/'' (mimeType d) then Some (dataUrl d) else scanParts rest)"

text \<open>
  The loops read \<open>candidate.content.parts\<close> without a test. For a candidate without
  content the read of \<open>parts\<close> raises a \<open>TypeError\<close>, and so does the inner loop
  for a content without parts. The messages are the engine's; these are the ones of V8,
  and no statement below depends on their wording.
\<close>

definition noContentMessage :: string where
  \<open>noContentMessage = ''Cannot read properties of undefined (reading 'parts')''\<close>

definition notIterableMessage :: string where
  "notIterableMessage = ''candidate.content.parts is not iterable''"

fun scanCandidates :: "Candidate list \<Rightarrow> thrown + string option" where
  "scanCandidates [] = Inr None"
| "scanCandidates (candidate # rest) =
     (case content candidate of
        None \<Rightarrow> Inl (TypeErrorObj noContentMessage)
      | Some c \<Rightarrow>
          (case parts c of
             None \<Rightarrow> Inl (TypeErrorObj notIterableMessage)
           | Some ps \<Rightarrow>
               (case scanParts ps of
                  Some url \<Rightarrow> Inr (Some url)
                | None \<Rightarrow> scanCandidates rest)))"

text \<open>Lines 121 and 167: \<open>response.candidates ?? []\<close>.\<close>

definition candidatesOf :: "GenerateContentResponse \<Rightarrow> Candidate list" where
  "candidatesOf response = (case candidates response of None \<Rightarrow> [] | Some cs \<Rightarrow> cs)"

text \<open>
  Lines 121-137 and 167-182. \<open>if (textResponse)\<close> holds for a string that is not
  empty.
\<close>

definition readResponse :: "GenerateContentResponse \<Rightarrow> thrown + string" where
  "readResponse response =
     (case scanCandidates (candidatesOf response) of
        Inl e \<Rightarrow> Inl e
      | Inr (Some url) \<Rightarrow> Inr url
      | Inr None \<Rightarrow>
          (case response_text response of
             None \<Rightarrow> Inl (ErrorObj ''No image was generated by the API.'')
           | Some textResponse \<Rightarrow>
               if textResponse \<noteq> []
               then Inl (ErrorObj (''API returned a text response instead of an image: ''
                                   @ textResponse))
               else Inl (ErrorObj ''No image was generated by the API.'')))"

text \<open>
  Lines 112-137 and 154-182: the one call of the model. The result is paired with the
  requests that were sent, so that a failure before the call is told from one after it.
  \<open>generateContent\<close> is the external model: it answers or rejects.
\<close>

definition callModel ::
  "(GenerateContentParameters \<Rightarrow> thrown + GenerateContentResponse) \<Rightarrow> Part list
     \<Rightarrow> (thrown + string) \<times> GenerateContentParameters list" where
  "callModel generateContent ps =
     (let request = \<lparr>model = ''gemini-2.5-flash-image-preview'', contents = ps,
                      responseModalities = [IMAGE, TEXT]\<rparr>
      in case generateContent request of
           Inl e \<Rightarrow> (Inl e, [request])
         | Inr response \<Rightarrow> (readResponse response, [request]))"

text \<open>
  Lines 18-138. The API key is taken to be set, as the source's comment says, so the
  constructor of the client does not throw.
\<close>

definition processCarImage ::
  "(GenerateContentParameters \<Rightarrow> thrown + GenerateContentResponse) \<Rightarrow> File \<Rightarrow> File option
     \<Rightarrow> ProcessingMode \<Rightarrow> ProcessingOptions
     \<Rightarrow> (thrown + string) \<times> GenerateContentParameters list" where
  "processCarImage generateContent carImageFile backgroundImageFile mode options =
     (case fileToBase64 carImageFile of
        Inl e \<Rightarrow> (Inl e, [])
      | Inr carImage \<Rightarrow>
          (case requestParts carImage backgroundImageFile mode options of
             Inl e \<Rightarrow> (Inl e, [])
           | Inr ps \<Rightarrow> callModel generateContent ps))"

text \<open>Lines 140-183.\<close>

definition correctImage ::
  "(GenerateContentParameters \<Rightarrow> thrown + GenerateContentResponse) \<Rightarrow> File \<Rightarrow> string
     \<Rightarrow> (thrown + string) \<times> GenerateContentParameters list" where
  "correctImage generateContent processedImageFile correctionPrompt =
     (case fileToBase64 processedImageFile of
        Inl e \<Rightarrow> (Inl e, [])
      | Inr processedImage \<Rightarrow>
          callModel generateContent
            [textPart (correct_head @ correctionPrompt @ correct_tail),
             inlinePart processedImage])"

section \<open>The application (App.tsx, lines 20-522 of src/unnamed/part_000)\<close>

subsection \<open>The name of an exported file\<close>

text \<open>
  \<open>String.prototype.split\<close> with a separator of one character: the pieces between
  the separators, one piece more than there are separators.
\<close>

fun split_on :: "char \<Rightarrow> string \<Rightarrow> string list" where
  "split_on c [] = [[]]"
| "split_on c (x # xs) =
     (if x = c then [] # split_on c xs
      else (case split_on c xs of
              [] \<Rightarrow> [[x]]
            | w # ws \<Rightarrow> (x # w) # ws))"

text \<open>\<open>Array.prototype.join\<close>.\<close>

fun join :: "string \<Rightarrow> string list \<Rightarrow> string" where
  "join sep [] = []"
| "join sep [w] = w"
| "join sep (w # v # ws) = w @ sep @ join sep (v # ws)"

text \<open>
  \<open>Array.prototype.pop\<close>: the last element, undefined for the empty array, and the
  array that is left.
\<close>

definition pop :: "'a list \<Rightarrow> 'a option \<times> 'a list" where
  "pop xs = (if xs = [] then (None, []) else (Some (last xs), butlast xs))"

text \<open>Lines 36-41. \<open>extension || 'png'\<close> is \<open>'png'\<close> for undefined and for the empty string.\<close>

definition getOutputFilename :: "string \<Rightarrow> string" where
  "getOutputFilename originalName =
     (let (extension, rest) = pop (split_on CHR ''.'' originalName);
          stem = join ''.'' rest
      in stem @ ''-processed.'' @
         (case extension of
            None \<Rightarrow> ''png''
          | Some e \<Rightarrow> if e \<noteq> [] then e else ''png''))"

subsection \<open>The state of the component and the updates of the list of images\<close>

record App =
  processedImages :: "ProcessedImage list"
  isProcessing :: bool
  globalError :: "string option"

text \<open>The initial values of \<open>useState\<close>, lines 46-48.\<close>

definition initialApp :: App where
  "initialApp = \<lparr>processedImages = [], isProcessing = False, globalError = None\<rparr>"

text \<open>
  The functions that are passed to \<open>setProcessedImages\<close>. Each maps over the previous
  list and rewrites the entries that have the given id.
\<close>

text \<open>Line 186.\<close>

definition markProcessing :: "string \<Rightarrow> ProcessedImage list \<Rightarrow> ProcessedImage list" where
  "markProcessing i prev =
     map (\<lambda>p. if image_id p = i then p\<lparr>status := Processing\<rparr> else p) prev"

text \<open>Lines 194 and 224.\<close>

definition markDone :: "string \<Rightarrow> string \<Rightarrow> ProcessedImage list \<Rightarrow> ProcessedImage list" where
  "markDone i resultUrl prev =
     map (\<lambda>p. if image_id p = i then p\<lparr>status := Done, processedUrl := Some resultUrl\<rparr> else p)
       prev"

text \<open>Lines 198 and 229.\<close>

definition markError :: "string \<Rightarrow> string \<Rightarrow> ProcessedImage list \<Rightarrow> ProcessedImage list" where
  "markError i errorMessage prev =
     map (\<lambda>p. if image_id p = i then p\<lparr>status := Error, error := Some errorMessage\<rparr> else p)
       prev"

text \<open>Line 215.\<close>

definition markRefining :: "string \<Rightarrow> ProcessedImage list \<Rightarrow> ProcessedImage list" where
  "markRefining i prev =
     map (\<lambda>p. if image_id p = i then p\<lparr>status := Processing, error := None\<rparr> else p) prev"

text \<open>Lines 197 and 228. A \<open>TypeError\<close> is an instance of \<open>Error\<close>.\<close>

fun errorMessageOf :: "thrown \<Rightarrow> string" where
  "errorMessageOf (ErrorObj message) = message"
| "errorMessageOf (TypeErrorObj message) = message"
| "errorMessageOf OtherValue = ''An unknown error occurred.''"

text \<open>Whether a value of type \<open>string | null\<close> is truthy.\<close>

fun truthy :: "string option \<Rightarrow> bool" where
  "truthy None = False"
| "truthy (Some s) = (s \<noteq> [])"

subsection \<open>Submitting a batch\<close>

text \<open>
  Lines 176-182. \<open>fresh\<close> holds, for each file, the id that \<open>crypto.randomUUID\<close>
  returns and the URL that \<open>URL.createObjectURL\<close> returns.
\<close>

definition initialProcessedImages :: "File list \<Rightarrow> (string \<times> string) list \<Rightarrow> ProcessedImage list" where
  "initialProcessedImages carImages fresh =
     map (\<lambda>(file, (i, url)).
            \<lparr>image_id = i, originalFile = file, originalUrl = url, processedUrl = None,
             status = Pending, error = None\<rparr>)
       (zip carImages fresh)"

text \<open>Line 168, the condition under which nothing is submitted.\<close>

definition submissionRejected :: "File list \<Rightarrow> File option \<Rightarrow> ProcessingMode \<Rightarrow> bool" where
  "submissionRejected carImages backgroundImage processingMode =
     (carImages = [] \<or> (processingMode \<noteq> TintTurntableOnly \<and> backgroundImage = None))"

text \<open>Lines 167-183, the part of \<open>handleProcessImages\<close> before the calls start.\<close>

definition submitBatch ::
  "File list \<Rightarrow> File option \<Rightarrow> ProcessingMode \<Rightarrow> (string \<times> string) list \<Rightarrow> App \<Rightarrow> App" where
  "submitBatch carImages backgroundImage processingMode fresh app =
     (if submissionRejected carImages backgroundImage processingMode
      then app\<lparr>globalError :=
                 Some ''Please upload at least one car image and a background image.''\<rparr>
      else app\<lparr>isProcessing := True, globalError := None,
               processedImages := initialProcessedImages carImages fresh\<rparr>)"

subsection \<open>Refining one image\<close>

text \<open>What \<open>fetch\<close> and \<open>response.blob()\<close> deliver: a media type and the bytes.\<close>

record Blob =
  blob_type :: string
  blob_base64 :: "string option"

text \<open>
  Lines 218-222: the body of the \<open>try\<close> block. \<open>fetch\<close> stands for the two awaited
  calls \<open>fetch(url)\<close> and \<open>response.blob()\<close>, which answer or reject.
\<close>

definition refinement ::
  "(string \<Rightarrow> thrown + Blob) \<Rightarrow> (GenerateContentParameters \<Rightarrow> thrown + GenerateContentResponse)
     \<Rightarrow> string \<Rightarrow> string \<Rightarrow> thrown + string" where
  "refinement fetch generateContent url correction =
     (case fetch url of
        Inl e \<Rightarrow> Inl e
      | Inr blob \<Rightarrow>
          fst (correctImage generateContent
                 \<lparr>name = ''processed_image.png'', type = blob_type blob,
                  base64 = blob_base64 blob\<rparr>
                 correction))"

text \<open>Lines 209-213, what the handler does when it does not start a refinement.\<close>

definition refuseCorrection :: "App \<Rightarrow> App" where
  "refuseCorrection app =
     app\<lparr>globalError := Some ''An internal error occurred while trying to refine the image.''\<rparr>"

text \<open>
  Lines 206-231, run without another update in between. The handler looks the image up
  by its id and tests its \<open>processedUrl\<close>; it does not read the status.
\<close>

definition handleCorrectImage ::
  "(string \<Rightarrow> thrown + Blob) \<Rightarrow> (GenerateContentParameters \<Rightarrow> thrown + GenerateContentResponse)
     \<Rightarrow> string \<Rightarrow> string \<Rightarrow> App \<Rightarrow> App" where
  "handleCorrectImage fetch generateContent imageId correction app =
     (case find (\<lambda>p. image_id p = imageId) (processedImages app) of
        None \<Rightarrow> refuseCorrection app
      | Some imageToCorrect \<Rightarrow>
          if \<not> truthy (processedUrl imageToCorrect) then refuseCorrection app
          else
            (let started = markRefining imageId (processedImages app)
             in case refinement fetch generateContent (the (processedUrl imageToCorrect))
                       correction of
                  Inr resultUrl \<Rightarrow>
                    app\<lparr>processedImages := markDone imageId resultUrl started\<rparr>
                | Inl e \<Rightarrow>
                    app\<lparr>processedImages := markError imageId (errorMessageOf e) started\<rparr>))"

text \<open>
  ImageCard.tsx, line 57: the controls that refine an image are rendered for an image
  only under this condition.
\<close>

definition refineOffered :: "ProcessedImage \<Rightarrow> bool" where
  "refineOffered img = (status img = Done \<and> truthy (processedUrl img))"

subsection \<open>The runs of the component\<close>

text \<open>
  One step is one update of the state. The calls of a batch are started one by one and
  finish in any order; what the model answers is not fixed, so a step that finishes a
  call holds for every answer. A call of a batch is in flight for an image that is
  \<open>Processing\<close> without a result, a refinement for one that is \<open>Processing\<close> with a
  result. The ids of a batch are fresh, so they differ from one another. The handler of
  a refinement is called from the card of an image, which offers it under
  \<open>refineOffered\<close>; what the handler does with any call is \<open>handleCorrectImage\<close>
  above.
\<close>

inductive step :: "App \<Rightarrow> App \<Rightarrow> bool" where
  submit:
    "length fresh = length carImages \<Longrightarrow> distinct (map fst fresh) \<Longrightarrow>
     step app (submitBatch carImages backgroundImage processingMode fresh app)"
| generation_started:
    "p \<in> set (processedImages app) \<Longrightarrow> status p = Pending \<Longrightarrow>
     step app (app\<lparr>processedImages := markProcessing (image_id p) (processedImages app)\<rparr>)"
| generation_done:
    "p \<in> set (processedImages app) \<Longrightarrow> status p = Processing \<Longrightarrow> processedUrl p = None \<Longrightarrow>
     fst (processCarImage generateContent (originalFile p) backgroundImage mode options)
       = Inr resultUrl \<Longrightarrow>
     step app (app\<lparr>processedImages := markDone (image_id p) resultUrl (processedImages app)\<rparr>)"
| generation_failed:
    "p \<in> set (processedImages app) \<Longrightarrow> status p = Processing \<Longrightarrow> processedUrl p = None \<Longrightarrow>
     fst (processCarImage generateContent (originalFile p) backgroundImage mode options)
       = Inl e \<Longrightarrow>
     step app (app\<lparr>processedImages :=
                      markError (image_id p) (errorMessageOf e) (processedImages app)\<rparr>)"
| batch_settled:
    "\<forall>p \<in> set (processedImages app).
       status p \<noteq> Pending \<and> \<not> (status p = Processing \<and> processedUrl p = None) \<Longrightarrow>
     step app (app\<lparr>isProcessing := False\<rparr>)"
| refinement_refused:
    "find (\<lambda>p. image_id p = imageId) (processedImages app) = None \<or>
     (\<exists>p. find (\<lambda>p. image_id p = imageId) (processedImages app) = Some p
          \<and> \<not> truthy (processedUrl p)) \<Longrightarrow>
     step app (refuseCorrection app)"
| refinement_started:
    "find (\<lambda>p. image_id p = imageId) (processedImages app) = Some p \<Longrightarrow>
     refineOffered p \<Longrightarrow>
     step app (app\<lparr>processedImages := markRefining imageId (processedImages app)\<rparr>)"
| refinement_done:
    "p \<in> set (processedImages app) \<Longrightarrow> status p = Processing \<Longrightarrow> processedUrl p = Some url \<Longrightarrow>
     refinement fetch generateContent url correction = Inr resultUrl \<Longrightarrow>
     step app (app\<lparr>processedImages := markDone (image_id p) resultUrl (processedImages app)\<rparr>)"
| refinement_failed:
    "p \<in> set (processedImages app) \<Longrightarrow> status p = Processing \<Longrightarrow> processedUrl p = Some url \<Longrightarrow>
     refinement fetch generateContent url correction = Inl e \<Longrightarrow>
     step app (app\<lparr>processedImages :=
                      markError (image_id p) (errorMessageOf e) (processedImages app)\<rparr>)"

inductive reachable :: "App \<Rightarrow> bool" where
  initial: "reachable initialApp"
| after: "reachable app \<Longrightarrow> step app app' \<Longrightarrow> reachable app'"


section \<open>Notions used in the statements\<close>

text \<open>Lines 123 and 169: the test that makes the loops return at a part.\<close>

definition isImagePart :: "Part \<Rightarrow> bool" where
  "isImagePart part =
     (case inlineData part of None \<Rightarrow> False | Some d \<Rightarrow> prefix ''image/'' (mimeType d))"

definition isTextPart :: "Part \<Rightarrow> bool" where
  "isTextPart part = (part_text part \<noteq> None)"

text \<open>The parts that a candidate holds, none when it has no content or no parts.\<close>

definition partsOf :: "Candidate \<Rightarrow> Part list" where
  "partsOf candidate =
     (case content candidate of
        None \<Rightarrow> []
      | Some c \<Rightarrow> (case parts c of None \<Rightarrow> [] | Some ps \<Rightarrow> ps))"

text \<open>Whether a candidate has a content with a list of parts, which may be empty.\<close>

definition hasParts :: "Candidate \<Rightarrow> bool" where
  "hasParts candidate =
     (case content candidate of None \<Rightarrow> False | Some c \<Rightarrow> parts c \<noteq> None)"

text \<open>The parts of a response in the order of its candidates and of their parts.\<close>

definition allParts :: "GenerateContentResponse \<Rightarrow> Part list" where
  "allParts response = concat (map partsOf (candidatesOf response))"


text \<open>The texts of the text parts of the first candidate, in their order.\<close>

definition firstTexts :: "GenerateContentResponse \<Rightarrow> string list" where
  "firstTexts response =
     (case candidatesOf response of
        [] \<Rightarrow> []
      | first # others \<Rightarrow> List.map_filter part_text (partsOf first))"

text \<open>What holds of every image in every run: a finished image has a result, a waiting one has none.\<close>

definition consistent :: "ProcessedImage \<Rightarrow> bool" where
  "consistent p =
     ((status p = Done \<longrightarrow> truthy (processedUrl p)) \<and>
      (status p = Pending \<longrightarrow> processedUrl p = None))"

section \<open>Sample inputs\<close>

definition carJpeg :: File where
  "carJpeg = \<lparr>name = ''car.jpg'', type = ''image/jpeg'', base64 = Some ''Y2Fy''\<rparr>"

definition unreadableCar :: File where
  "unreadableCar = \<lparr>name = ''car.jpg'', type = ''image/jpeg'', base64 = None\<rparr>"

definition redTint :: ProcessingOptions where
  "redTint = \<lparr>floorEffect = Some FloorNone, matchReflections = Some False,
              turntableTint = Some TintRed\<rparr>"

definition pngPart :: Part where
  "pngPart = inlinePart \<lparr>data = ''UE5H'', mimeType = ''image/png''\<rparr>"

definition jpegPart :: Part where
  "jpegPart = inlinePart \<lparr>data = ''SlBH'', mimeType = ''image/jpeg''\<rparr>"

text \<open>A response with a text part before two image parts.\<close>

definition imageResponse :: GenerateContentResponse where
  "imageResponse =
     \<lparr>candidates =
        Some [\<lparr>content = Some \<lparr>parts = Some [textPart ''Here you are.'', pngPart, jpegPart]\<rparr>\<rparr>]\<rparr>"

text \<open>A response whose only part is a text part with the empty text.\<close>

definition emptyTextResponse :: GenerateContentResponse where
  "emptyTextResponse =
     \<lparr>candidates = Some [\<lparr>content = Some \<lparr>parts = Some [textPart '''']\<rparr>\<rparr>]\<rparr>"

text \<open>A response whose only part is a text part with a refusal.\<close>

definition refusalResponse :: GenerateContentResponse where
  "refusalResponse =
     \<lparr>candidates =
        Some [\<lparr>content = Some \<lparr>parts = Some [textPart ''I cannot edit this image.'']\<rparr>\<rparr>]\<rparr>"

text \<open>A response whose only candidate has a content with no part.\<close>

definition noPartsResponse :: GenerateContentResponse where
  "noPartsResponse = \<lparr>candidates = Some [\<lparr>content = Some \<lparr>parts = Some []\<rparr>\<rparr>]\<rparr>"


text \<open>A model that answers every request with the given response, and one that rejects.\<close>

definition answering ::
  "GenerateContentResponse \<Rightarrow> GenerateContentParameters \<Rightarrow> thrown + GenerateContentResponse" where
  "answering response request = Inr response"

definition offline :: "GenerateContentParameters \<Rightarrow> thrown + GenerateContentResponse" where
  "offline request = Inl (ErrorObj ''Failed to fetch'')"

definition fetchPng :: "string \<Rightarrow> thrown + Blob" where
  "fetchPng url = Inr \<lparr>blob_type = ''image/png'', blob_base64 = Some ''UE5H''\<rparr>"

text \<open>A fetch that delivers bytes which the reader then cannot read.\<close>

definition fetchUnreadable :: "string \<Rightarrow> thrown + Blob" where
  "fetchUnreadable url = Inr \<lparr>blob_type = ''image/png'', blob_base64 = None\<rparr>"


text \<open>An image of a batch, and the states of a run with one image.\<close>

definition sampleJob ::
  "string \<Rightarrow> ProcessingStatus \<Rightarrow> string option \<Rightarrow> string option \<Rightarrow> ProcessedImage" where
  "sampleJob i st url err =
     \<lparr>image_id = i, originalFile = carJpeg, originalUrl = ''blob:car'', processedUrl = url,
      status = st, error = err\<rparr>"

definition pngUrl :: string where
  "pngUrl = ''data:image/png;base64,UE5H''"

definition oneImage :: "ProcessedImage \<Rightarrow> bool \<Rightarrow> App" where
  "oneImage job busy = \<lparr>processedImages = [job], isProcessing = busy, globalError = None\<rparr>"

definition afterSubmit :: App where
  "afterSubmit = oneImage (sampleJob ''id-1'' Pending None None) True"

definition afterStart :: App where
  "afterStart = oneImage (sampleJob ''id-1'' Processing None None) True"

definition afterDone :: App where
  "afterDone = oneImage (sampleJob ''id-1'' Done (Some pngUrl) None) True"

definition settled :: App where
  "settled = oneImage (sampleJob ''id-1'' Done (Some pngUrl) None) False"

definition refining :: App where
  "refining = oneImage (sampleJob ''id-1'' Processing (Some pngUrl) None) False"

definition refineFailed :: App where
  "refineFailed = oneImage (sampleJob ''id-1'' Error (Some pngUrl) (Some ''Failed to fetch'')) False"

definition generationFailed :: App where
  "generationFailed = oneImage (sampleJob ''id-1'' Error None (Some ''Failed to fetch'')) True"

text \<open>Three images that are done.\<close>

definition threeDone :: App where
  "threeDone =
     \<lparr>processedImages =
        [sampleJob ''id-1'' Done (Some ''data:image/png;base64,QQ=='') None,
         sampleJob ''id-2'' Done (Some ''data:image/png;base64,Qg=='') None,
         sampleJob ''id-3'' Done (Some ''data:image/png;base64,Qw=='') None],
      isProcessing = False, globalError = None\<rparr>"


section \<open>The prompts\<close>

lemma decimal_6: "decimal 6 = ''6''"
  by (simp add: decimal.simps digit_def)

lemma decimal_7: "decimal 7 = ''7''"
  by (simp add: decimal.simps digit_def)

lemma prompt_Full: "prompt Full options = full_text"
  by (simp add: prompt_def)

lemma prompt_TurntableTint:
  "prompt TurntableTint options =
     (if turntableTint options = Some TintRed
      then turntable_base @ ''\<newline>6. '' @ tint_red @ closing
      else if turntableTint options = Some TintYellow
      then turntable_base @ ''\<newline>6. '' @ tint_yellow @ closing
      else turntable_base @ closing)"
  by (simp add: prompt_def tint_clause_def decimal_6)

lemma floor_clause_6:
  "floor_clause options (p, 6) =
     (if floorEffect options = Some FloorDesaturate
      then (p @ ''\<newline>6. '' @ floor_desaturate, 7)
      else if floorEffect options = Some FloorRed then (p @ ''\<newline>6. '' @ floor_red, 7)
      else if floorEffect options = Some FloorYellow then (p @ ''\<newline>6. '' @ floor_yellow, 7)
      else (p, 6))"
  by (simp add: floor_clause_def decimal_6)

lemma reflections_clause_6:
  "reflections_clause options (p, 6) =
     (if matchReflections options = Some True
      then (p @ ''\<newline>6. '' @ reflections, 7) else (p, 6))"
  by (simp add: reflections_clause_def decimal_6)

lemma reflections_clause_7:
  "reflections_clause options (p, 7) =
     (if matchReflections options = Some True
      then (p @ ''\<newline>7. '' @ reflections, 8) else (p, 7))"
  by (simp add: reflections_clause_def decimal_7)


text \<open>
  The clauses of the floor effect and of the reflections all hold the letter q, which no
  prompt of the other three modes holds; the tint clauses hold the capital L, which no
  prompt of the modes full and partial-wall holds.
\<close>

lemma q_in_clause:
  "CHR ''q'' \<in> set floor_desaturate" "CHR ''q'' \<in> set floor_red"
  "CHR ''q'' \<in> set floor_yellow" "CHR ''q'' \<in> set reflections"
  by (simp_all add: floor_desaturate_def floor_red_def floor_yellow_def reflections_def)

lemma q_notin_text:
  "CHR ''q'' \<notin> set full_text" "CHR ''q'' \<notin> set turntable_base" "CHR ''q'' \<notin> set closing"
  "CHR ''q'' \<notin> set tint_red" "CHR ''q'' \<notin> set tint_yellow"
  "CHR ''q'' \<notin> set tintOnly_head" "CHR ''q'' \<notin> set tintOnly_tail"
  by (simp_all add: full_text_def turntable_base_def closing_def tint_red_def tint_yellow_def
        tintOnly_head_def tintOnly_tail_def)

lemma q_notin_tint_literal: "CHR ''q'' \<notin> set (tint_literal t)"
  by (cases t rule: tint_literal.cases) simp_all

lemma L_in_clause: "CHR ''L'' \<in> set tint_red" "CHR ''L'' \<in> set tint_yellow"
  by (simp_all add: tint_red_def tint_yellow_def)

lemma L_notin_text:
  "CHR ''L'' \<notin> set full_text" "CHR ''L'' \<notin> set partialWall_base" "CHR ''L'' \<notin> set closing"
  "CHR ''L'' \<notin> set floor_desaturate" "CHR ''L'' \<notin> set floor_red"
  "CHR ''L'' \<notin> set floor_yellow" "CHR ''L'' \<notin> set reflections"
  by (simp_all add: full_text_def partialWall_base_def closing_def floor_desaturate_def
        floor_red_def floor_yellow_def reflections_def)

lemma q_notin_prompt:
  "CHR ''q'' \<notin> set (prompt Full options)"
  "CHR ''q'' \<notin> set (prompt TurntableTint options)"
  "CHR ''q'' \<notin> set (prompt TintTurntableOnly options)"
    apply (simp add: prompt_Full q_notin_text)
   apply (simp add: prompt_TurntableTint q_notin_text)
  apply (simp add: prompt_def q_notin_text q_notin_tint_literal)
  done

lemma L_notin_prompt:
  "CHR ''L'' \<notin> set (prompt Full options)"
  "CHR ''L'' \<notin> set (prompt PartialWall options)"
   apply (simp add: prompt_Full L_notin_text)
  apply (simp add: prompt_def floor_clause_6 reflections_clause_6 reflections_clause_7
      L_notin_text)
  done

lemma absent_char: "c \<in> set clause \<Longrightarrow> c \<notin> set p \<Longrightarrow> \<not> sublist clause p"
  using set_mono_sublist by blast

text \<open>
  Claim C9. Whatever the options are: the prompt of mode full holds none of the three
  floor clauses, nor the reflections clause, nor one of the two tint clauses; the
  prompts of the modes turntable-tint and tint-turntable-only hold no floor clause and
  not the reflections clause; the prompt of mode partial-wall holds no tint clause.
  A clause is held when its text occurs as a contiguous part of the prompt.
\<close>

theorem C9_irrelevant_clauses_absent:
  "list_all (\<lambda>clause. \<not> sublist clause (prompt Full options))
     [floor_desaturate, floor_red, floor_yellow, reflections, tint_red, tint_yellow]
   \<and> list_all (\<lambda>clause. \<not> sublist clause (prompt TurntableTint options))
     [floor_desaturate, floor_red, floor_yellow, reflections]
   \<and> list_all (\<lambda>clause. \<not> sublist clause (prompt TintTurntableOnly options))
     [floor_desaturate, floor_red, floor_yellow, reflections]
   \<and> list_all (\<lambda>clause. \<not> sublist clause (prompt PartialWall options))
     [tint_red, tint_yellow]"
  by (simp add: absent_char [OF q_in_clause(1)] absent_char [OF q_in_clause(2)]
        absent_char [OF q_in_clause(3)] absent_char [OF q_in_clause(4)]
        absent_char [OF L_in_clause(1)] absent_char [OF L_in_clause(2)]
        q_notin_prompt L_notin_prompt)

section \<open>Reading the response\<close>

lemma scanParts_find:
  "scanParts ps = map_option (\<lambda>part. dataUrl (the (inlineData part))) (find isImagePart ps)"
  by (induction ps) (auto simp: isImagePart_def split: option.splits)


lemma scanCandidates_hasParts:
  "hasParts candidate \<Longrightarrow>
   scanCandidates (candidate # rest) =
     (case scanParts (partsOf candidate) of
        Some url \<Rightarrow> Inr (Some url)
      | None \<Rightarrow> scanCandidates rest)"
  by (auto simp: hasParts_def partsOf_def split: option.splits)



lemma scanCandidates_none:
  "list_all hasParts cs \<Longrightarrow> \<not> list_ex isImagePart (concat (map partsOf cs)) \<Longrightarrow>
   scanCandidates cs = Inr None"
proof (induction cs)
  case Nil
  show ?case by simp
next
  case (Cons c cs)
  from Cons.prems(2) have "find isImagePart (partsOf c) = None"
    by (auto simp: find_None_iff list_ex_iff)
  with Cons show ?case
    by (simp del: scanCandidates.simps(2) add: scanCandidates_hasParts scanParts_find)
qed

lemma scanCandidates_no_result:
  "\<not> list_ex isImagePart (concat (map partsOf cs)) \<Longrightarrow> scanCandidates cs \<noteq> Inr (Some url)"
proof (induction cs)
  case Nil
  show ?case by simp
next
  case (Cons c cs)
  show ?case
  proof (cases "hasParts c")
    case True
    from Cons.prems have "find isImagePart (partsOf c) = None"
      by (auto simp: find_None_iff list_ex_iff)
    with Cons True show ?thesis
      by (simp del: scanCandidates.simps(2) add: scanCandidates_hasParts scanParts_find)
  next
    case False
    then show ?thesis
      by (auto simp: hasParts_def split: option.splits)
  qed
qed

lemma response_text_firstTexts:
  "response_text response =
     (if firstTexts response = [] then None else Some (concat (firstTexts response)))"
  by (simp add: response_text_def firstTexts_def candidatesOf_def partsOf_def
      split: option.splits list.splits)

lemma no_parts_no_texts: "allParts response = [] \<Longrightarrow> firstTexts response = []"
  by (cases "candidatesOf response") (simp_all add: allParts_def firstTexts_def)


lemma readResponse_no_image:
  assumes "\<not> list_ex isImagePart (allParts response)"
    and "list_all hasParts (candidatesOf response)"
  shows "readResponse response =
           Inl (ErrorObj (if concat (firstTexts response) = []
                          then ''No image was generated by the API.''
                          else ''API returned a text response instead of an image: ''
                               @ concat (firstTexts response)))"
proof -
  from assms have "scanCandidates (candidatesOf response) = Inr None"
    by (simp add: scanCandidates_none allParts_def)
  then show ?thesis
    by (simp add: readResponse_def response_text_firstTexts)
qed

lemma readResponse_no_result:
  assumes "\<not> list_ex isImagePart (allParts response)"
  shows "\<exists>e. readResponse response = Inl e"
proof (cases "scanCandidates (candidatesOf response)")
  case (Inl e)
  then show ?thesis by (simp add: readResponse_def)
next
  case (Inr found)
  with scanCandidates_no_result [of "candidatesOf response"] assms have "found = None"
    by (cases found) (auto simp: allParts_def)
  with Inr show ?thesis
    by (simp add: readResponse_def split: option.splits)
qed

lemma callModel_answered:
  "snd (callModel generateContent ps) = [request] \<Longrightarrow> generateContent request = Inr response \<Longrightarrow>
   fst (callModel generateContent ps) = readResponse response"
  by (auto simp: callModel_def Let_def split: sum.splits)

lemma processCarImage_answered:
  "snd (processCarImage generateContent car bg mode options) = [request] \<Longrightarrow>
   generateContent request = Inr response \<Longrightarrow>
   fst (processCarImage generateContent car bg mode options) = readResponse response"
  by (auto simp: processCarImage_def callModel_answered split: sum.splits)

lemma correctImage_answered:
  "snd (correctImage generateContent file correction) = [request] \<Longrightarrow>
   generateContent request = Inr response \<Longrightarrow>
   fst (correctImage generateContent file correction) = readResponse response"
  by (auto simp: correctImage_def callModel_answered split: sum.splits)

text \<open>The requests that the sample calls send, and that the sample models answer them.\<close>

lemma sample_generation_sent:
  "snd (processCarImage (answering response) carJpeg None TintTurntableOnly redTint)
   = [hd (snd (processCarImage (answering response) carJpeg None TintTurntableOnly redTint))]"
  by (simp add: processCarImage_def requestParts_def fileToBase64_def callModel_def Let_def
      carJpeg_def answering_def)

lemma sample_refinement_sent:
  "snd (correctImage (answering response) carJpeg correction)
   = [hd (snd (correctImage (answering response) carJpeg correction))]"
  by (simp add: correctImage_def fileToBase64_def callModel_def Let_def carJpeg_def
      answering_def)




text \<open>
  Claim C4, as amended. When a response holds no image part, each of the two operations,
  once the model has answered its request with this response, fails and returns no
  result. When moreover every candidate has a content with a list of parts, the error
  is this: if the texts of the text parts of the first candidate, joined, are not empty,
  it carries them after a fixed prefix; otherwise it is the error with the fixed message
  that no image was generated, and so it is in particular for a response without any
  part.
\<close>

theorem C4_no_image_part:
  assumes "\<not> list_ex isImagePart (allParts response)"
  shows "(snd (processCarImage generateContent car bg mode options) = [request] \<longrightarrow>
          generateContent request = Inr response \<longrightarrow>
          (\<exists>e. fst (processCarImage generateContent car bg mode options) = Inl e) \<and>
          (list_all hasParts (candidatesOf response) \<longrightarrow>
             fst (processCarImage generateContent car bg mode options) =
               Inl (ErrorObj (if concat (firstTexts response) = []
                              then ''No image was generated by the API.''
                              else ''API returned a text response instead of an image: ''
                                   @ concat (firstTexts response))) \<and>
             (allParts response = [] \<longrightarrow>
                fst (processCarImage generateContent car bg mode options) =
                  Inl (ErrorObj ''No image was generated by the API.'')))) \<and>
         (snd (correctImage generateContent file correction) = [request'] \<longrightarrow>
          generateContent request' = Inr response \<longrightarrow>
          (\<exists>e. fst (correctImage generateContent file correction) = Inl e) \<and>
          (list_all hasParts (candidatesOf response) \<longrightarrow>
             fst (correctImage generateContent file correction) =
               Inl (ErrorObj (if concat (firstTexts response) = []
                              then ''No image was generated by the API.''
                              else ''API returned a text response instead of an image: ''
                                   @ concat (firstTexts response))) \<and>
             (allParts response = [] \<longrightarrow>
                fst (correctImage generateContent file correction) =
                  Inl (ErrorObj ''No image was generated by the API.''))))"
proof -
  have fails: "\<exists>e. readResponse response = Inl e"
    using assms by (rule readResponse_no_result)
  have which: "list_all hasParts (candidatesOf response) \<Longrightarrow>
      readResponse response =
        Inl (ErrorObj (if concat (firstTexts response) = []
                       then ''No image was generated by the API.''
                       else ''API returned a text response instead of an image: ''
                            @ concat (firstTexts response)))"
    using assms by (rule readResponse_no_image)
  have empty: "list_all hasParts (candidatesOf response) \<Longrightarrow> allParts response = [] \<Longrightarrow>
      readResponse response = Inl (ErrorObj ''No image was generated by the API.'')"
    using which no_parts_no_texts [of response] by simp
  show ?thesis
    using fails which empty
    by (simp add: processCarImage_answered correctImage_answered)
qed

text \<open>
  The sample refusal: both operations fail with the text of the refusal. The sample
  response without any part: both fail with the fixed message.
\<close>

theorem C4_no_image_part_witness:
  "\<not> list_ex isImagePart (allParts refusalResponse)
   \<and> list_all hasParts (candidatesOf refusalResponse)
   \<and> fst (processCarImage (answering refusalResponse) carJpeg None TintTurntableOnly redTint)
       = Inl (ErrorObj
           ''API returned a text response instead of an image: I cannot edit this image.'')
   \<and> fst (correctImage (answering refusalResponse) carJpeg ''make the shadow softer'')
       = Inl (ErrorObj
           ''API returned a text response instead of an image: I cannot edit this image.'')
   \<and> \<not> list_ex isImagePart (allParts noPartsResponse)
   \<and> list_all hasParts (candidatesOf noPartsResponse)
   \<and> allParts noPartsResponse = []
   \<and> fst (processCarImage (answering noPartsResponse) carJpeg None TintTurntableOnly redTint)
       = Inl (ErrorObj ''No image was generated by the API.'')
   \<and> fst (correctImage (answering noPartsResponse) carJpeg ''make the shadow softer'')
       = Inl (ErrorObj ''No image was generated by the API.'')"
proof -
  have none: "\<not> list_ex isImagePart (allParts refusalResponse)"
    and whole: "list_all hasParts (candidatesOf refusalResponse)"
    and texts: "concat (firstTexts refusalResponse) = ''I cannot edit this image.''"
    by (simp_all add: allParts_def candidatesOf_def partsOf_def hasParts_def firstTexts_def
        refusalResponse_def isImagePart_def textPart_def)
  have none': "\<not> list_ex isImagePart (allParts noPartsResponse)"
    and whole': "list_all hasParts (candidatesOf noPartsResponse)"
    and empty: "allParts noPartsResponse = []"
    by (simp_all add: allParts_def candidatesOf_def partsOf_def hasParts_def noPartsResponse_def)
  have answered: "answering response r = Inr response" for response r
    by (simp add: answering_def)
  from C4_no_image_part [OF none,
      of "answering refusalResponse" carJpeg None TintTurntableOnly redTint _
         carJpeg "''make the shadow softer''"]
    sample_generation_sent [of refusalResponse]
    sample_refinement_sent [of refusalResponse "''make the shadow softer''"]
    answered whole
  have "fst (processCarImage (answering refusalResponse) carJpeg None TintTurntableOnly redTint)
          = Inl (ErrorObj (if concat (firstTexts refusalResponse) = []
                           then ''No image was generated by the API.''
                           else ''API returned a text response instead of an image: ''
                                @ concat (firstTexts refusalResponse)))"
    and "fst (correctImage (answering refusalResponse) carJpeg ''make the shadow softer'')
          = Inl (ErrorObj (if concat (firstTexts refusalResponse) = []
                           then ''No image was generated by the API.''
                           else ''API returned a text response instead of an image: ''
                                @ concat (firstTexts refusalResponse)))"
    by blast+
  moreover
  from C4_no_image_part [OF none',
      of "answering noPartsResponse" carJpeg None TintTurntableOnly redTint _
         carJpeg "''make the shadow softer''"]
    sample_generation_sent [of noPartsResponse]
    sample_refinement_sent [of noPartsResponse "''make the shadow softer''"]
    answered whole' empty
  have "fst (processCarImage (answering noPartsResponse) carJpeg None TintTurntableOnly redTint)
          = Inl (ErrorObj ''No image was generated by the API.'')"
    and "fst (correctImage (answering noPartsResponse) carJpeg ''make the shadow softer'')
          = Inl (ErrorObj ''No image was generated by the API.'')"
    by blast+
  ultimately show ?thesis
    using none whole none' whole' empty by (simp add: texts)
qed

text \<open>
  Claim C4 as it was stated fails for a response whose only part is a text part with the
  empty text: no image part is there, a text part is, and both operations fail with the
  fixed message, not with the error that carries the text.
\<close>

theorem C4_empty_text_counterexample:
  "\<not> list_ex isImagePart (allParts emptyTextResponse)
   \<and> list_ex isTextPart (allParts emptyTextResponse)
   \<and> list_all hasParts (candidatesOf emptyTextResponse)
   \<and> fst (processCarImage (answering emptyTextResponse) carJpeg None TintTurntableOnly redTint)
       = Inl (ErrorObj ''No image was generated by the API.'')
   \<and> fst (correctImage (answering emptyTextResponse) carJpeg ''make the shadow softer'')
       = Inl (ErrorObj ''No image was generated by the API.'')
   \<and> fst (processCarImage (answering emptyTextResponse) carJpeg None TintTurntableOnly redTint)
       \<noteq> Inl (ErrorObj (''API returned a text response instead of an image: ''
                         @ concat (firstTexts emptyTextResponse)))"
  by (simp add: allParts_def candidatesOf_def partsOf_def hasParts_def firstTexts_def
      emptyTextResponse_def isImagePart_def isTextPart_def textPart_def
      processCarImage_def correctImage_def requestParts_def fileToBase64_def callModel_def
      Let_def carJpeg_def answering_def readResponse_def response_text_def)

text \<open>
  Claim C3, as amended. With a mode other than tint-turntable-only and no background
  image the operation sends no request and fails: with the error that a background
  image is required when the car image could be read, and with the reader's error when
  it could not. The component, for its part, submits nothing then and sets the global
  error. With mode tint-turntable-only, no background image and a readable car image,
  the operation goes on to the model: it sends one request, which holds the prompt and
  the car image, and what it returns is what that call gives. The component, given at
  least one car image, then creates the batch.
\<close>

theorem C3_missing_background:
  "(mode \<noteq> TintTurntableOnly \<longrightarrow>
      snd (processCarImage generateContent car None mode options) = [] \<and>
      fst (processCarImage generateContent car None mode options) =
        (case base64 car of
           None \<Rightarrow> Inl OtherValue
         | Some d \<Rightarrow> Inl (ErrorObj ''A background image is required for this processing mode.''))
      \<and> submitBatch carImages None mode fresh app =
          app\<lparr>globalError :=
                Some ''Please upload at least one car image and a background image.''\<rparr>)
   \<and> (base64 car = Some d \<longrightarrow>
        processCarImage generateContent car None TintTurntableOnly options =
          callModel generateContent
            [textPart (prompt TintTurntableOnly options),
             inlinePart \<lparr>data = d, mimeType = type car\<rparr>]
        \<and> length (snd (processCarImage generateContent car None TintTurntableOnly options)) = 1)
   \<and> (carImages \<noteq> [] \<longrightarrow>
        submitBatch carImages None TintTurntableOnly fresh app =
          app\<lparr>isProcessing := True, globalError := None,
              processedImages := initialProcessedImages carImages fresh\<rparr>)"
proof -
  have "mode \<noteq> TintTurntableOnly \<Longrightarrow>
        submitBatch carImages None mode fresh app =
          app\<lparr>globalError :=
                Some ''Please upload at least one car image and a background image.''\<rparr>"
    by (simp add: submitBatch_def submissionRejected_def)
  moreover have "carImages \<noteq> [] \<Longrightarrow>
        submitBatch carImages None TintTurntableOnly fresh app =
          app\<lparr>isProcessing := True, globalError := None,
              processedImages := initialProcessedImages carImages fresh\<rparr>"
    by (simp add: submitBatch_def submissionRejected_def)
  moreover have "mode \<noteq> TintTurntableOnly \<Longrightarrow>
      snd (processCarImage generateContent car None mode options) = [] \<and>
      fst (processCarImage generateContent car None mode options) =
        (case base64 car of
           None \<Rightarrow> Inl OtherValue
         | Some d \<Rightarrow> Inl (ErrorObj ''A background image is required for this processing mode.''))"
    by (simp add: processCarImage_def requestParts_def fileToBase64_def split: option.splits)
  moreover have "base64 car = Some d \<Longrightarrow>
        processCarImage generateContent car None TintTurntableOnly options =
          callModel generateContent
            [textPart (prompt TintTurntableOnly options),
             inlinePart \<lparr>data = d, mimeType = type car\<rparr>]
        \<and> length (snd (processCarImage generateContent car None TintTurntableOnly options)) = 1"
    by (simp add: processCarImage_def requestParts_def fileToBase64_def callModel_def Let_def
        split: sum.splits)
  ultimately show ?thesis
    by blast
qed

theorem C3_missing_background_witness:
  "Full \<noteq> TintTurntableOnly \<and> base64 carJpeg = Some ''Y2Fy'' \<and> [carJpeg] \<noteq> []
   \<and> processCarImage offline carJpeg None Full redTint
       = (Inl (ErrorObj ''A background image is required for this processing mode.''), [])
   \<and> submitBatch [carJpeg] None Full [(''id-1'', ''blob:car'')] initialApp
       = initialApp\<lparr>globalError :=
           Some ''Please upload at least one car image and a background image.''\<rparr>
   \<and> processCarImage offline carJpeg None TintTurntableOnly redTint
       = (Inl (ErrorObj ''Failed to fetch''),
          [\<lparr>model = ''gemini-2.5-flash-image-preview'',
            contents = [textPart (prompt TintTurntableOnly redTint),
                        inlinePart \<lparr>data = ''Y2Fy'', mimeType = ''image/jpeg''\<rparr>],
            responseModalities = [IMAGE, TEXT]\<rparr>])
   \<and> submitBatch [carJpeg] None TintTurntableOnly [(''id-1'', ''blob:car'')] initialApp
       = afterSubmit"
proof -
  have readable: "base64 carJpeg = Some ''Y2Fy''" and jpeg: "type carJpeg = ''image/jpeg''"
    by (simp_all add: carJpeg_def)
  have mode: "Full \<noteq> TintTurntableOnly" and some: "[carJpeg] \<noteq> []"
    by simp_all
  from C3_missing_background
         [of Full offline carJpeg redTint "[carJpeg]" "[(''id-1'', ''blob:car'')]" initialApp
             "''Y2Fy''"]
    readable mode some
  have "snd (processCarImage offline carJpeg None Full redTint) = []"
    and "fst (processCarImage offline carJpeg None Full redTint)
           = Inl (ErrorObj ''A background image is required for this processing mode.'')"
    and "submitBatch [carJpeg] None Full [(''id-1'', ''blob:car'')] initialApp
           = initialApp\<lparr>globalError :=
               Some ''Please upload at least one car image and a background image.''\<rparr>"
    and "processCarImage offline carJpeg None TintTurntableOnly redTint =
           callModel offline
             [textPart (prompt TintTurntableOnly redTint),
              inlinePart \<lparr>data = ''Y2Fy'', mimeType = type carJpeg\<rparr>]"
    and "submitBatch [carJpeg] None TintTurntableOnly [(''id-1'', ''blob:car'')] initialApp
           = initialApp\<lparr>isProcessing := True, globalError := None,
               processedImages :=
                 initialProcessedImages [carJpeg] [(''id-1'', ''blob:car'')]\<rparr>"
    by simp_all
  then show ?thesis
    using readable mode
    by (simp add: prod_eq_iff callModel_def Let_def offline_def jpeg initialApp_def
        afterSubmit_def oneImage_def sampleJob_def initialProcessedImages_def)
qed

text \<open>
  Claim C3 as it was stated fails when the car image cannot be read: the operation reads
  it first, so with mode full and no background image it fails with the reader's error,
  not with the error that a background image is required.
\<close>

theorem C3_unreadable_car_counterexample:
  "Full \<noteq> TintTurntableOnly
   \<and> processCarImage offline unreadableCar None Full redTint = (Inl OtherValue, [])
   \<and> fst (processCarImage offline unreadableCar None Full redTint)
       \<noteq> Inl (ErrorObj ''A background image is required for this processing mode.'')"
  by (simp add: processCarImage_def fileToBase64_def unreadableCar_def)

section \<open>The name of an exported file\<close>

lemma split_on_not_Nil: "split_on c s \<noteq> []"
  by (induction s) (auto split: list.splits)

lemma split_on_no_separator: "c \<notin> set s \<Longrightarrow> split_on c s = [s]"
  by (induction s) auto

lemma split_on_separator: "split_on c (xs @ c # ys) = split_on c xs @ split_on c ys"
proof (induction xs)
  case Nil
  show ?case by simp
next
  case (Cons x xs)
  then show ?case
    using split_on_not_Nil [of c xs]
    by (cases "split_on c xs") auto
qed

lemma join_Cons: "ws \<noteq> [] \<Longrightarrow> join sep (w # ws) = w @ sep @ join sep ws"
  by (cases ws) auto

lemma join_split_on: "join [c] (split_on c s) = s"
proof (induction s)
  case Nil
  show ?case by simp
next
  case (Cons x s)
  show ?case
  proof (cases "x = c")
    case True
    with Cons show ?thesis by (simp add: join_Cons split_on_not_Nil)
  next
    case False
    obtain w ws where w: "split_on c s = w # ws"
      using split_on_not_Nil [of c s] by (cases "split_on c s") auto
    with Cons False show ?thesis
      by (cases ws) auto
  qed
qed

lemma getOutputFilename_dotted:
  assumes "CHR ''.'' \<notin> set ext"
  shows "getOutputFilename (stem @ ''.'' @ ext) =
           stem @ ''-processed.'' @ (if ext = [] then ''png'' else ext)"
proof -
  have "split_on CHR ''.'' (stem @ ''.'' @ ext) = split_on CHR ''.'' stem @ [ext]"
    using assms by (simp add: split_on_separator split_on_no_separator)
  then show ?thesis
    by (simp add: getOutputFilename_def pop_def join_split_on)
qed

lemma getOutputFilename_undotted:
  assumes "CHR ''.'' \<notin> set nm"
  shows "getOutputFilename nm = ''-processed.'' @ (if nm = [] then ''png'' else nm)"
  using assms by (simp add: getOutputFilename_def pop_def split_on_no_separator)

text \<open>
  Claim C7. For a name with a full stop the code does what the claim says, as the lemma
  above shows. For a name without one the code takes the whole name for the extension
  and leaves the stem empty: the file name photo gives -processed.photo, not
  photo-processed.png.
\<close>

theorem C7_name_without_extension: "getOutputFilename ''photo'' = ''-processed.photo''"
  by (simp add: getOutputFilename_def pop_def)

section \<open>The updates of the list of images\<close>

lemma mark_ids [simp]:
  "map image_id (markProcessing i l) = map image_id l"
  "map image_id (markDone i u l) = map image_id l"
  "map image_id (markError i m l) = map image_id l"
  "map image_id (markRefining i l) = map image_id l"
  by (simp_all add: markProcessing_def markDone_def markError_def markRefining_def comp_def)

lemma mark_length [simp]:
  "length (markProcessing i l) = length l"
  "length (markDone i u l) = length l"
  "length (markError i m l) = length l"
  "length (markRefining i l) = length l"
  by (simp_all add: markProcessing_def markDone_def markError_def markRefining_def)

lemma mark_other:
  assumes "k < length l" and "image_id (l ! k) \<noteq> i"
  shows "markProcessing i l ! k = l ! k" and "markDone i u l ! k = l ! k"
    and "markError i m l ! k = l ! k" and "markRefining i l ! k = l ! k"
  using assms by (simp_all add: markProcessing_def markDone_def markError_def markRefining_def)

lemma mark_target:
  assumes "k < length l" and "image_id (l ! k) = i"
  shows "markProcessing i l ! k = (l ! k)\<lparr>status := Processing\<rparr>"
    and "markDone i u l ! k = (l ! k)\<lparr>status := Done, processedUrl := Some u\<rparr>"
    and "markError i m l ! k = (l ! k)\<lparr>status := Error, error := Some m\<rparr>"
    and "markRefining i l ! k = (l ! k)\<lparr>status := Processing, error := None\<rparr>"
  using assms by (simp_all add: markProcessing_def markDone_def markError_def markRefining_def)

lemma scanParts_url: "scanParts ps = Some url \<Longrightarrow> url \<noteq> []"
  by (auto simp: scanParts_find dataUrl_def)

lemma scanCandidates_url: "scanCandidates cs = Inr (Some url) \<Longrightarrow> url \<noteq> []"
  by (induction cs) (auto simp: scanParts_url split: option.splits)

lemma readResponse_url: "readResponse response = Inr url \<Longrightarrow> url \<noteq> []"
  by (auto simp: readResponse_def scanCandidates_url split: sum.splits option.splits if_splits)

lemma callModel_url: "fst (callModel generateContent ps) = Inr url \<Longrightarrow> url \<noteq> []"
  by (auto simp: callModel_def Let_def readResponse_url split: sum.splits)

lemma processCarImage_url:
  "fst (processCarImage generateContent car bg mode options) = Inr url \<Longrightarrow> url \<noteq> []"
  by (auto simp: processCarImage_def callModel_url split: sum.splits)

lemma correctImage_url:
  "fst (correctImage generateContent file correction) = Inr url \<Longrightarrow> url \<noteq> []"
  by (auto simp: correctImage_def callModel_url split: sum.splits)

lemma refinement_url: "refinement fetch generateContent u correction = Inr url \<Longrightarrow> url \<noteq> []"
  by (auto simp: refinement_def correctImage_url split: sum.splits)
lemma find_mark:
  "find (\<lambda>p. image_id p = i) (markRefining i l) =
     map_option (\<lambda>p. p\<lparr>status := Processing, error := None\<rparr>) (find (\<lambda>p. image_id p = i) l)"
  "find (\<lambda>p. image_id p = i) (markDone i u l) =
     map_option (\<lambda>p. p\<lparr>status := Done, processedUrl := Some u\<rparr>) (find (\<lambda>p. image_id p = i) l)"
  "find (\<lambda>p. image_id p = i) (markError i m l) =
     map_option (\<lambda>p. p\<lparr>status := Error, error := Some m\<rparr>) (find (\<lambda>p. image_id p = i) l)"
  by (induction l) (simp_all add: markRefining_def markDone_def markError_def)

lemma mark_fixed_fields:
  "map originalFile (markRefining i l) = map originalFile l"
  "map originalFile (markDone i u l) = map originalFile l"
  "map originalFile (markError i m l) = map originalFile l"
  "map originalUrl (markRefining i l) = map originalUrl l"
  "map originalUrl (markDone i u l) = map originalUrl l"
  "map originalUrl (markError i m l) = map originalUrl l"
  by (simp_all add: markRefining_def markDone_def markError_def comp_def)

lemma mark_keeps_result:
  "map processedUrl (markRefining i l) = map processedUrl l"
  "map processedUrl (markError i m l) = map processedUrl l"
  "map processedUrl (markProcessing i l) = map processedUrl l"
  by (simp_all add: markRefining_def markError_def markProcessing_def comp_def)

section \<open>What holds in every run\<close>

lemma initialProcessedImages_ids:
  "length fresh = length carImages \<Longrightarrow>
   map image_id (initialProcessedImages carImages fresh) = map fst fresh"
proof -
  assume len: "length fresh = length carImages"
  have "map image_id (initialProcessedImages carImages fresh)
          = map (\<lambda>x. fst (snd x)) (zip carImages fresh)"
    by (simp add: initialProcessedImages_def comp_def case_prod_beta)
  also have "\<dots> = map fst (map snd (zip carImages fresh))"
    by (simp add: comp_def)
  also have "\<dots> = map fst fresh"
    using len by simp
  finally show ?thesis .
qed

lemma initialProcessedImages_consistent:
  "p \<in> set (initialProcessedImages carImages fresh) \<Longrightarrow> consistent p"
  by (auto simp: initialProcessedImages_def consistent_def)

lemma processedImages_submitBatch:
  "processedImages (submitBatch carImages backgroundImage processingMode fresh app) =
     (if submissionRejected carImages backgroundImage processingMode
      then processedImages app else initialProcessedImages carImages fresh)"
  by (simp add: submitBatch_def)

lemma processedImages_refuseCorrection:
  "processedImages (refuseCorrection app) = processedImages app"
  by (simp add: refuseCorrection_def)

lemma step_distinct:
  "step app app' \<Longrightarrow> distinct (map image_id (processedImages app)) \<Longrightarrow>
   distinct (map image_id (processedImages app'))"
proof (induction rule: step.induct)
  case (submit fresh carImages app backgroundImage processingMode)
  then show ?case
    by (simp add: processedImages_submitBatch initialProcessedImages_ids)
qed (simp_all add: processedImages_refuseCorrection)

lemma consistent_updates:
  "consistent p \<Longrightarrow> consistent (p\<lparr>status := Processing\<rparr>)"
  "u \<noteq> [] \<Longrightarrow> consistent (p\<lparr>status := Done, processedUrl := Some u\<rparr>)"
  "consistent (p\<lparr>status := Error, error := Some m\<rparr>)"
  "consistent (p\<lparr>status := Processing, error := None\<rparr>)"
  by (simp_all add: consistent_def)

lemma mark_consistent:
  "list_all consistent l \<Longrightarrow> list_all consistent (markProcessing i l)"
  "list_all consistent l \<Longrightarrow> u \<noteq> [] \<Longrightarrow> list_all consistent (markDone i u l)"
  "list_all consistent l \<Longrightarrow> list_all consistent (markError i m l)"
  "list_all consistent l \<Longrightarrow> list_all consistent (markRefining i l)"
  by (induction l)
     (simp_all add: markProcessing_def markDone_def markError_def markRefining_def
        consistent_updates)

lemma step_consistent:
  "step app app' \<Longrightarrow> list_all consistent (processedImages app) \<Longrightarrow>
   list_all consistent (processedImages app')"
proof (induction rule: step.induct)
  case (submit fresh carImages app backgroundImage processingMode)
  from submit.prems show ?case
    by (simp add: processedImages_submitBatch list_all_iff initialProcessedImages_consistent)
next
  case (generation_started p app)
  from generation_started.prems show ?case
    by (simp add: mark_consistent)
next
  case (generation_done p app generateContent backgroundImage mode options resultUrl)
  from generation_done.hyps(4) have "resultUrl \<noteq> []"
    by (rule processCarImage_url)
  with generation_done.prems show ?case
    by (simp add: mark_consistent)
next
  case (generation_failed p app generateContent backgroundImage mode options e)
  from generation_failed.prems show ?case
    by (simp add: mark_consistent)
next
  case (batch_settled app)
  from batch_settled.prems show ?case
    by simp
next
  case (refinement_refused imageId app)
  from refinement_refused.prems show ?case
    by (simp add: processedImages_refuseCorrection)
next
  case (refinement_started imageId app p)
  from refinement_started.prems show ?case
    by (simp add: mark_consistent)
next
  case (refinement_done p app url fetch generateContent correction resultUrl)
  from refinement_done.hyps(4) have "resultUrl \<noteq> []"
    by (rule refinement_url)
  with refinement_done.prems show ?case
    by (simp add: mark_consistent)
next
  case (refinement_failed p app url fetch generateContent correction e)
  from refinement_failed.prems show ?case
    by (simp add: mark_consistent)
qed

lemma reachable_invariant:
  "reachable app \<Longrightarrow>
   distinct (map image_id (processedImages app)) \<and> list_all consistent (processedImages app)"
proof (induction rule: reachable.induct)
  case initial
  show ?case by (simp add: initialApp_def)
next
  case (after app app')
  then show ?case
    by (simp add: step_distinct step_consistent)
qed

lemma same_id_same_image:
  assumes "distinct (map image_id l)" and "p \<in> set l" and "q \<in> set l"
    and "image_id p = image_id q"
  shows "p = q"
  using assms by (meson distinct_map inj_onD)

lemma find_in_list:
  "find (\<lambda>p. image_id p = i) l = Some job \<Longrightarrow> job \<in> set l \<and> image_id job = i"
  by (auto simp: find_Some_iff)

section \<open>The sample run\<close>

lemma sample_generation:
  "fst (processCarImage (answering imageResponse) carJpeg None TintTurntableOnly redTint)
   = Inr pngUrl"
  by (simp add: processCarImage_def requestParts_def fileToBase64_def callModel_def Let_def
      carJpeg_def answering_def readResponse_def candidatesOf_def imageResponse_def textPart_def
      pngPart_def inlinePart_def dataUrl_def pngUrl_def)

lemma sample_generation_offline:
  "fst (processCarImage offline carJpeg None TintTurntableOnly redTint)
   = Inl (ErrorObj ''Failed to fetch'')"
  by (simp add: processCarImage_def requestParts_def fileToBase64_def callModel_def Let_def
      carJpeg_def offline_def)

lemma sample_refinement_offline:
  "refinement fetchPng offline url correction = Inl (ErrorObj ''Failed to fetch'')"
  by (simp add: refinement_def fetchPng_def correctImage_def fileToBase64_def callModel_def
      Let_def offline_def)

lemma sample_refinement:
  "refinement fetchPng (answering imageResponse) url correction = Inr pngUrl"
  by (simp add: refinement_def fetchPng_def correctImage_def fileToBase64_def callModel_def
      Let_def answering_def readResponse_def candidatesOf_def imageResponse_def textPart_def
      pngPart_def inlinePart_def dataUrl_def pngUrl_def)

lemma reachable_afterSubmit: "reachable afterSubmit"
proof -
  have "step initialApp
          (submitBatch [carJpeg] None TintTurntableOnly [(''id-1'', ''blob:car'')] initialApp)"
    by (rule step.submit) simp_all
  moreover have
    "submitBatch [carJpeg] None TintTurntableOnly [(''id-1'', ''blob:car'')] initialApp
       = afterSubmit"
    by (simp add: submitBatch_def submissionRejected_def initialProcessedImages_def
        initialApp_def afterSubmit_def oneImage_def sampleJob_def)
  ultimately show ?thesis
    using reachable.initial reachable.after by fastforce
qed

lemma reachable_afterStart: "reachable afterStart"
proof -
  have "step afterSubmit
          (afterSubmit\<lparr>processedImages :=
             markProcessing (image_id (sampleJob ''id-1'' Pending None None))
               (processedImages afterSubmit)\<rparr>)"
    by (rule step.generation_started) (simp_all add: afterSubmit_def oneImage_def sampleJob_def)
  moreover have
    "afterSubmit\<lparr>processedImages :=
       markProcessing (image_id (sampleJob ''id-1'' Pending None None))
         (processedImages afterSubmit)\<rparr> = afterStart"
    by (simp add: afterSubmit_def afterStart_def oneImage_def sampleJob_def markProcessing_def)
  ultimately show ?thesis
    using reachable_afterSubmit reachable.after by fastforce
qed

lemma reachable_afterDone: "reachable afterDone"
proof -
  have "step afterStart
          (afterStart\<lparr>processedImages :=
             markDone (image_id (sampleJob ''id-1'' Processing None None)) pngUrl
               (processedImages afterStart)\<rparr>)"
    by (rule step.generation_done
          [where generateContent = "answering imageResponse" and backgroundImage = None
             and mode = TintTurntableOnly and options = redTint])
       (simp_all add: afterStart_def oneImage_def sampleJob_def sample_generation)
  moreover have
    "afterStart\<lparr>processedImages :=
       markDone (image_id (sampleJob ''id-1'' Processing None None)) pngUrl
         (processedImages afterStart)\<rparr> = afterDone"
    by (simp add: afterStart_def afterDone_def oneImage_def sampleJob_def markDone_def)
  ultimately show ?thesis
    using reachable_afterStart reachable.after by fastforce
qed

lemma reachable_settled: "reachable settled"
proof -
  have "step afterDone (afterDone\<lparr>isProcessing := False\<rparr>)"
    by (rule step.batch_settled) (simp add: afterDone_def oneImage_def sampleJob_def)
  moreover have "afterDone\<lparr>isProcessing := False\<rparr> = settled"
    by (simp add: afterDone_def settled_def oneImage_def)
  ultimately show ?thesis
    using reachable_afterDone reachable.after by fastforce
qed

lemma reachable_refining: "reachable refining"
proof -
  have "step settled
          (settled\<lparr>processedImages := markRefining ''id-1'' (processedImages settled)\<rparr>)"
    by (rule step.refinement_started [where p = "sampleJob ''id-1'' Done (Some pngUrl) None"])
       (simp_all add: settled_def oneImage_def sampleJob_def refineOffered_def pngUrl_def)
  moreover have
    "settled\<lparr>processedImages := markRefining ''id-1'' (processedImages settled)\<rparr> = refining"
    by (simp add: settled_def refining_def oneImage_def sampleJob_def markRefining_def)
  ultimately show ?thesis
    using reachable_settled reachable.after by fastforce
qed

lemma reachable_refineFailed: "reachable refineFailed"
proof -
  have "step refining
          (refining\<lparr>processedImages :=
             markError (image_id (sampleJob ''id-1'' Processing (Some pngUrl) None))
               (errorMessageOf (ErrorObj ''Failed to fetch'')) (processedImages refining)\<rparr>)"
    by (rule step.refinement_failed
          [where fetch = fetchPng and generateContent = offline and url = pngUrl
             and correction = "''make the shadow softer''"])
       (simp_all add: refining_def oneImage_def sampleJob_def sample_refinement_offline)
  moreover have
    "refining\<lparr>processedImages :=
       markError (image_id (sampleJob ''id-1'' Processing (Some pngUrl) None))
         (errorMessageOf (ErrorObj ''Failed to fetch'')) (processedImages refining)\<rparr>
     = refineFailed"
    by (simp add: refining_def refineFailed_def oneImage_def sampleJob_def markError_def)
  ultimately show ?thesis
    using reachable_refining reachable.after by fastforce
qed

lemma reachable_generationFailed: "reachable generationFailed"
proof -
  have "step afterStart
          (afterStart\<lparr>processedImages :=
             markError (image_id (sampleJob ''id-1'' Processing None None))
               (errorMessageOf (ErrorObj ''Failed to fetch'')) (processedImages afterStart)\<rparr>)"
    by (rule step.generation_failed
          [where generateContent = offline and backgroundImage = None
             and mode = TintTurntableOnly and options = redTint])
       (simp_all add: afterStart_def oneImage_def sampleJob_def sample_generation_offline)
  moreover have
    "afterStart\<lparr>processedImages :=
       markError (image_id (sampleJob ''id-1'' Processing None None))
         (errorMessageOf (ErrorObj ''Failed to fetch'')) (processedImages afterStart)\<rparr>
     = generationFailed"
    by (simp add: afterStart_def generationFailed_def oneImage_def sampleJob_def markError_def)
  ultimately show ?thesis
    using reachable_afterStart reachable.after by fastforce
qed

section \<open>The state of an image in the runs\<close>

text \<open>
  Claim C1, as amended. In every state that a run reaches, an image whose status is done
  has a result that is not null, and an image that has a result is not pending. The
  converse does not hold: an image keeps its result while a refinement of it is in
  flight and after a refinement of it has failed.
\<close>

theorem C1_done_has_result:
  assumes "reachable app" and "p \<in> set (processedImages app)"
  shows "(status p = Done \<longrightarrow> processedUrl p \<noteq> None) \<and>
         (processedUrl p \<noteq> None \<longrightarrow> status p \<noteq> Pending)"
proof -
  from reachable_invariant [OF assms(1)] assms(2) have "consistent p"
    by (simp add: list_all_iff)
  then show ?thesis
    by (cases "processedUrl p") (auto simp: consistent_def)
qed

theorem C1_done_has_result_witness:
  "reachable settled
   \<and> sampleJob ''id-1'' Done (Some pngUrl) None \<in> set (processedImages settled)
   \<and> status (sampleJob ''id-1'' Done (Some pngUrl) None) = Done
   \<and> processedUrl (sampleJob ''id-1'' Done (Some pngUrl) None) \<noteq> None
   \<and> status (sampleJob ''id-1'' Done (Some pngUrl) None) \<noteq> Pending"
proof -
  have member: "sampleJob ''id-1'' Done (Some pngUrl) None \<in> set (processedImages settled)"
    by (simp add: settled_def oneImage_def)
  have finished: "status (sampleJob ''id-1'' Done (Some pngUrl) None) = Done"
    by (simp add: sampleJob_def)
  from C1_done_has_result [OF reachable_settled member] finished
  show ?thesis
    using reachable_settled member by simp
qed

text \<open>
  Claim C1 as it was stated fails in the sample run: after the image was generated and a
  refinement of it failed, the image has the status error and still has its result; and
  before that, while the refinement was in flight, it had the status processing and its
  result.
\<close>

theorem C1_retained_result_counterexample:
  "reachable refineFailed
   \<and> processedImages refineFailed
       = [sampleJob ''id-1'' Error (Some pngUrl) (Some ''Failed to fetch'')]
   \<and> processedUrl (sampleJob ''id-1'' Error (Some pngUrl) (Some ''Failed to fetch'')) \<noteq> None
   \<and> status (sampleJob ''id-1'' Error (Some pngUrl) (Some ''Failed to fetch'')) \<noteq> Done
   \<and> reachable refining
   \<and> processedImages refining = [sampleJob ''id-1'' Processing (Some pngUrl) None]
   \<and> processedUrl (sampleJob ''id-1'' Processing (Some pngUrl) None) \<noteq> None
   \<and> status (sampleJob ''id-1'' Processing (Some pngUrl) None) \<noteq> Done"
  using reachable_refineFailed reachable_refining
  by (simp add: refineFailed_def refining_def oneImage_def sampleJob_def)

section \<open>Refining one image\<close>

lemma handleCorrectImage_cases:
  "processedImages (handleCorrectImage fetch generateContent imageId correction app)
     = processedImages app
   \<or> (\<exists>u. processedImages (handleCorrectImage fetch generateContent imageId correction app)
            = markDone imageId u (markRefining imageId (processedImages app)))
   \<or> (\<exists>m. processedImages (handleCorrectImage fetch generateContent imageId correction app)
            = markError imageId m (markRefining imageId (processedImages app)))"
  by (auto simp: handleCorrectImage_def Let_def processedImages_refuseCorrection
      split: option.splits sum.splits)

text \<open>
  Claim C6. A refinement of the image with the id \<open>imageId\<close>, whether it succeeds,
  fails or is refused, leaves every image with another id as it was, field by field and
  in its place in the list; and of every image it leaves the id, the original file and
  the original URL as they were.
\<close>

theorem C6_siblings_unchanged:
  assumes "k < length (processedImages app)"
    and "image_id (processedImages app ! k) \<noteq> imageId"
  shows "length (processedImages (handleCorrectImage fetch generateContent imageId correction app))
           = length (processedImages app)
         \<and> processedImages (handleCorrectImage fetch generateContent imageId correction app) ! k
           = processedImages app ! k
         \<and> map image_id
             (processedImages (handleCorrectImage fetch generateContent imageId correction app))
           = map image_id (processedImages app)
         \<and> map originalFile
             (processedImages (handleCorrectImage fetch generateContent imageId correction app))
           = map originalFile (processedImages app)
         \<and> map originalUrl
             (processedImages (handleCorrectImage fetch generateContent imageId correction app))
           = map originalUrl (processedImages app)"
proof -
  from assms have other: "markRefining imageId (processedImages app) ! k = processedImages app ! k"
    by (rule mark_other)
  with assms(1) have
    "markDone imageId u (markRefining imageId (processedImages app)) ! k = processedImages app ! k"
    "markError imageId m (markRefining imageId (processedImages app)) ! k = processedImages app ! k"
    for u m
    using assms(2) by (simp_all add: mark_other)
  then show ?thesis
    using handleCorrectImage_cases [of fetch generateContent imageId correction app]
    by (auto simp: mark_fixed_fields)
qed

text \<open>
  Three images are done and the second is refined: the first is as it was when the
  refinement succeeds, and the third is as it was when the refinement fails.
\<close>

theorem C6_siblings_unchanged_witness:
  "0 < length (processedImages threeDone)
   \<and> image_id (processedImages threeDone ! 0) \<noteq> ''id-2''
   \<and> processedImages
        (handleCorrectImage fetchPng (answering imageResponse) ''id-2'' ''softer'' threeDone) ! 0
       = sampleJob ''id-1'' Done (Some ''data:image/png;base64,QQ=='') None
   \<and> 2 < length (processedImages threeDone)
   \<and> image_id (processedImages threeDone ! 2) \<noteq> ''id-2''
   \<and> processedImages (handleCorrectImage fetchPng offline ''id-2'' ''softer'' threeDone) ! 2
       = sampleJob ''id-3'' Done (Some ''data:image/png;base64,Qw=='') None"
proof -
  have first: "0 < length (processedImages threeDone)"
    "image_id (processedImages threeDone ! 0) \<noteq> ''id-2''"
    and third: "2 < length (processedImages threeDone)"
    "image_id (processedImages threeDone ! 2) \<noteq> ''id-2''"
    by (simp_all add: threeDone_def sampleJob_def)
  have "processedImages threeDone ! 0
          = sampleJob ''id-1'' Done (Some ''data:image/png;base64,QQ=='') None"
    and "processedImages threeDone ! 2
          = sampleJob ''id-3'' Done (Some ''data:image/png;base64,Qw=='') None"
    by (simp_all add: threeDone_def)
  with C6_siblings_unchanged [OF first, of fetchPng "answering imageResponse" "''softer''"]
    C6_siblings_unchanged [OF third, of fetchPng offline "''softer''"]
  show ?thesis
    using first third by simp
qed

text \<open>
  Claim C10. In a state that a run reaches, let \<open>job\<close> be the image that the handler
  finds for the id, let it be done, and let the refinement fail with \<open>e\<close>. Then the
  image had a result, and after the handler the image found for the id is \<open>job\<close> with
  the status error and with the message of the failure: the message of \<open>e\<close> when \<open>e\<close>
  is an error object, and the fixed message of an unknown error otherwise. Its result is
  the one it had, and no image of the list has lost or changed its result.
\<close>

theorem C10_failed_refinement_keeps_result:
  assumes "reachable app"
    and "find (\<lambda>p. image_id p = imageId) (processedImages app) = Some job"
    and "status job = Done"
    and "refinement fetch generateContent (the (processedUrl job)) correction = Inl e"
  shows "processedUrl job \<noteq> None
         \<and> find (\<lambda>p. image_id p = imageId)
             (processedImages (handleCorrectImage fetch generateContent imageId correction app))
           = Some (job\<lparr>status := Error,
                       error := Some (case e of
                                        ErrorObj message \<Rightarrow> message
                                      | TypeErrorObj message \<Rightarrow> message
                                      | OtherValue \<Rightarrow> ''An unknown error occurred.'')\<rparr>)
         \<and> processedUrl
              (job\<lparr>status := Error,
                   error := Some (case e of
                                    ErrorObj message \<Rightarrow> message
                                  | TypeErrorObj message \<Rightarrow> message
                                  | OtherValue \<Rightarrow> ''An unknown error occurred.'')\<rparr>)
           = processedUrl job
         \<and> map processedUrl
             (processedImages (handleCorrectImage fetch generateContent imageId correction app))
           = map processedUrl (processedImages app)"
proof -
  have message: "errorMessageOf e =
      (case e of
         ErrorObj message \<Rightarrow> message
       | TypeErrorObj message \<Rightarrow> message
       | OtherValue \<Rightarrow> ''An unknown error occurred.'')"
    by (cases e) simp_all
  from find_in_list [OF assms(2)] have "job \<in> set (processedImages app)"
    by simp
  with reachable_invariant [OF assms(1)] have "consistent job"
    by (simp add: list_all_iff)
  with assms(3) have result: "truthy (processedUrl job)"
    by (simp add: consistent_def)
  then have present: "processedUrl job \<noteq> None"
    by (cases "processedUrl job") simp_all
  from assms(2,4) result have after:
    "processedImages (handleCorrectImage fetch generateContent imageId correction app)
       = markError imageId (errorMessageOf e) (markRefining imageId (processedImages app))"
    by (simp add: handleCorrectImage_def Let_def)
  from assms(2) have
    "find (\<lambda>p. image_id p = imageId)
       (markError imageId (errorMessageOf e) (markRefining imageId (processedImages app)))
     = Some (job\<lparr>status := Error, error := Some (errorMessageOf e)\<rparr>)"
    by (simp add: find_mark)
  with after present show ?thesis
    by (simp add: mark_keeps_result message)
qed

text \<open>
  The sample run: the refinement of the finished image fails with an error object whose
  message is kept; and when the result cannot be read again, the failure is no error
  object and the message is the fixed one.
\<close>

theorem C10_failed_refinement_keeps_result_witness:
  "reachable settled
   \<and> find (\<lambda>p. image_id p = ''id-1'') (processedImages settled)
       = Some (sampleJob ''id-1'' Done (Some pngUrl) None)
   \<and> status (sampleJob ''id-1'' Done (Some pngUrl) None) = Done
   \<and> refinement fetchPng offline pngUrl ''softer'' = Inl (ErrorObj ''Failed to fetch'')
   \<and> processedImages (handleCorrectImage fetchPng offline ''id-1'' ''softer'' settled)
       = [sampleJob ''id-1'' Error (Some pngUrl) (Some ''Failed to fetch'')]
   \<and> refinement fetchUnreadable offline pngUrl ''softer'' = Inl OtherValue
   \<and> processedImages (handleCorrectImage fetchUnreadable offline ''id-1'' ''softer'' settled)
       = [sampleJob ''id-1'' Error (Some pngUrl) (Some ''An unknown error occurred.'')]"
proof -
  have found: "find (\<lambda>p. image_id p = ''id-1'') (processedImages settled)
                 = Some (sampleJob ''id-1'' Done (Some pngUrl) None)"
    by (simp add: settled_def oneImage_def sampleJob_def)
  have finished: "status (sampleJob ''id-1'' Done (Some pngUrl) None) = Done"
    by (simp add: sampleJob_def)
  have url: "the (processedUrl (sampleJob ''id-1'' Done (Some pngUrl) None)) = pngUrl"
    by (simp add: sampleJob_def)
  have failing:
    "refinement fetchPng offline (the (processedUrl (sampleJob ''id-1'' Done (Some pngUrl) None)))
       ''softer'' = Inl (ErrorObj ''Failed to fetch'')"
    by (rule sample_refinement_offline)
  have unreadable: "refinement fetchUnreadable offline u ''softer'' = Inl OtherValue" for u
    by (simp add: refinement_def fetchUnreadable_def correctImage_def fileToBase64_def)
  have one: "length (processedImages (handleCorrectImage f offline ''id-1'' ''softer'' settled)) = 1"
    for f
    using handleCorrectImage_cases [of f offline "''id-1''" "''softer''" settled]
    by (auto simp: settled_def oneImage_def)
  have single: "length l = 1 \<Longrightarrow> find (\<lambda>p. image_id p = ''id-1'') l = Some x \<Longrightarrow> l = [x]"
    for l :: "ProcessedImage list" and x
    by (cases l) (auto split: if_splits)
  from C10_failed_refinement_keeps_result [OF reachable_settled found finished failing]
  have "find (\<lambda>p. image_id p = ''id-1'')
          (processedImages (handleCorrectImage fetchPng offline ''id-1'' ''softer'' settled))
        = Some ((sampleJob ''id-1'' Done (Some pngUrl) None)
                 \<lparr>status := Error, error := Some ''Failed to fetch''\<rparr>)"
    by simp
  from single [OF one this]
  have first: "processedImages (handleCorrectImage fetchPng offline ''id-1'' ''softer'' settled)
                 = [sampleJob ''id-1'' Error (Some pngUrl) (Some ''Failed to fetch'')]"
    by (simp add: sampleJob_def)
  from C10_failed_refinement_keeps_result
         [OF reachable_settled found finished unreadable]
  have "find (\<lambda>p. image_id p = ''id-1'')
          (processedImages (handleCorrectImage fetchUnreadable offline ''id-1'' ''softer'' settled))
        = Some ((sampleJob ''id-1'' Done (Some pngUrl) None)
                 \<lparr>status := Error, error := Some ''An unknown error occurred.''\<rparr>)"
    by simp
  from single [OF one this]
  have second:
    "processedImages (handleCorrectImage fetchUnreadable offline ''id-1'' ''softer'' settled)
       = [sampleJob ''id-1'' Error (Some pngUrl) (Some ''An unknown error occurred.'')]"
    by (simp add: sampleJob_def)
  show ?thesis
    using reachable_settled found finished sample_refinement_offline unreadable first second
    by simp
qed

section \<open>An image whose status is error\<close>

lemma step_keeps_error:
  assumes "step app app'" and "distinct (map image_id (processedImages app))"
    and "k < length (processedImages app)" and "status (processedImages app ! k) = Error"
  shows "(\<exists>carImages backgroundImage processingMode fresh.
            app' = submitBatch carImages backgroundImage processingMode fresh app)
         \<or> (length (processedImages app') = length (processedImages app)
            \<and> processedImages app' ! k = processedImages app ! k)"
  using assms
proof (induction rule: step.induct)
  case (submit fresh carImages app backgroundImage processingMode)
  show ?case by blast
next
  case (generation_started p app)
  from generation_started.hyps generation_started.prems(3)
  have "image_id (processedImages app ! k) \<noteq> image_id p"
    using same_id_same_image [OF generation_started.prems(1) _ generation_started.hyps(1)]
      nth_mem [OF generation_started.prems(2)]
    by force
  with generation_started.prems(2) show ?case
    by (simp add: mark_other)
next
  case (generation_done p app generateContent backgroundImage mode options resultUrl)
  from generation_done.hyps generation_done.prems(3)
  have "image_id (processedImages app ! k) \<noteq> image_id p"
    using same_id_same_image [OF generation_done.prems(1) _ generation_done.hyps(1)]
      nth_mem [OF generation_done.prems(2)]
    by force
  with generation_done.prems(2) show ?case
    by (simp add: mark_other)
next
  case (generation_failed p app generateContent backgroundImage mode options e)
  from generation_failed.hyps generation_failed.prems(3)
  have "image_id (processedImages app ! k) \<noteq> image_id p"
    using same_id_same_image [OF generation_failed.prems(1) _ generation_failed.hyps(1)]
      nth_mem [OF generation_failed.prems(2)]
    by force
  with generation_failed.prems(2) show ?case
    by (simp add: mark_other)
next
  case (batch_settled app)
  show ?case by simp
next
  case (refinement_refused imageId app)
  show ?case by (simp add: processedImages_refuseCorrection)
next
  case (refinement_started imageId app p)
  from find_in_list [OF refinement_started.hyps(1)]
  have p: "p \<in> set (processedImages app)" "image_id p = imageId"
    by simp_all
  from refinement_started.hyps(2) have "status p = Done"
    by (simp add: refineOffered_def)
  with p refinement_started.prems(3)
  have "image_id (processedImages app ! k) \<noteq> imageId"
    using same_id_same_image [OF refinement_started.prems(1) _ p(1)]
      nth_mem [OF refinement_started.prems(2)]
    by force
  with refinement_started.prems(2) show ?case
    by (simp add: mark_other)
next
  case (refinement_done p app url fetch generateContent correction resultUrl)
  from refinement_done.hyps refinement_done.prems(3)
  have "image_id (processedImages app ! k) \<noteq> image_id p"
    using same_id_same_image [OF refinement_done.prems(1) _ refinement_done.hyps(1)]
      nth_mem [OF refinement_done.prems(2)]
    by force
  with refinement_done.prems(2) show ?case
    by (simp add: mark_other)
next
  case (refinement_failed p app url fetch generateContent correction e)
  from refinement_failed.hyps refinement_failed.prems(3)
  have "image_id (processedImages app ! k) \<noteq> image_id p"
    using same_id_same_image [OF refinement_failed.prems(1) _ refinement_failed.hyps(1)]
      nth_mem [OF refinement_failed.prems(2)]
    by force
  with refinement_failed.prems(2) show ?case
    by (simp add: mark_other)
qed

text \<open>
  Claim C2, as amended. The controls that refine an image are offered only for an image
  that is done, so in the runs of the component an image whose status is error is left
  as it is by every step, unless the step submits a batch. The handler itself tests the
  result of the image and not its status: for an image whose status is error and that
  has no result, as after a failed generation, it starts nothing, leaves the list of
  images as it is and sets the global error.
\<close>

theorem C2_error_is_not_refined:
  "(reachable app \<longrightarrow> step app app' \<longrightarrow> k < length (processedImages app) \<longrightarrow>
      status (processedImages app ! k) = Error \<longrightarrow>
      (\<exists>carImages backgroundImage processingMode fresh.
          app' = submitBatch carImages backgroundImage processingMode fresh app)
      \<or> (length (processedImages app') = length (processedImages app)
         \<and> processedImages app' ! k = processedImages app ! k))
   \<and> (find (\<lambda>p. image_id p = imageId) (processedImages app) = Some job \<longrightarrow>
        status job = Error \<longrightarrow>
        \<not> refineOffered job
        \<and> (\<not> truthy (processedUrl job) \<longrightarrow>
             handleCorrectImage fetch generateContent imageId correction app
               = app\<lparr>globalError :=
                       Some ''An internal error occurred while trying to refine the image.''\<rparr>))"
proof -
  have "find (\<lambda>p. image_id p = imageId) (processedImages app) = Some job \<Longrightarrow>
        \<not> truthy (processedUrl job) \<Longrightarrow>
        handleCorrectImage fetch generateContent imageId correction app
          = app\<lparr>globalError :=
                  Some ''An internal error occurred while trying to refine the image.''\<rparr>"
    by (simp add: handleCorrectImage_def refuseCorrection_def)
  then show ?thesis
    using step_keeps_error [of app app' k] reachable_invariant [of app]
    by (auto simp: refineOffered_def)
qed

text \<open>
  The image of the sample run whose generation failed: the step that ends the batch
  leaves it as it is, and the handler refuses to refine it.
\<close>

theorem C2_error_is_not_refined_witness:
  "reachable generationFailed
   \<and> step generationFailed (generationFailed\<lparr>isProcessing := False\<rparr>)
   \<and> 0 < length (processedImages generationFailed)
   \<and> status (processedImages generationFailed ! 0) = Error
   \<and> processedImages (generationFailed\<lparr>isProcessing := False\<rparr>) ! 0
       = processedImages generationFailed ! 0
   \<and> find (\<lambda>p. image_id p = ''id-1'') (processedImages generationFailed)
       = Some (sampleJob ''id-1'' Error None (Some ''Failed to fetch''))
   \<and> status (sampleJob ''id-1'' Error None (Some ''Failed to fetch'')) = Error
   \<and> \<not> truthy (processedUrl (sampleJob ''id-1'' Error None (Some ''Failed to fetch'')))
   \<and> \<not> refineOffered (sampleJob ''id-1'' Error None (Some ''Failed to fetch''))
   \<and> processedImages (handleCorrectImage fetchPng offline ''id-1'' ''softer'' generationFailed)
       = processedImages generationFailed
   \<and> globalError (handleCorrectImage fetchPng offline ''id-1'' ''softer'' generationFailed)
       = Some ''An internal error occurred while trying to refine the image.''"
proof -
  have ends: "step generationFailed (generationFailed\<lparr>isProcessing := False\<rparr>)"
    by (rule step.batch_settled)
       (simp add: generationFailed_def oneImage_def sampleJob_def)
  have at: "0 < length (processedImages generationFailed)"
    "status (processedImages generationFailed ! 0) = Error"
    by (simp_all add: generationFailed_def oneImage_def sampleJob_def)
  have found: "find (\<lambda>p. image_id p = ''id-1'') (processedImages generationFailed)
                 = Some (sampleJob ''id-1'' Error None (Some ''Failed to fetch''))"
    by (simp add: generationFailed_def oneImage_def sampleJob_def)
  have failed: "status (sampleJob ''id-1'' Error None (Some ''Failed to fetch'')) = Error"
    and empty: "\<not> truthy (processedUrl (sampleJob ''id-1'' Error None (Some ''Failed to fetch'')))"
    by (simp_all add: sampleJob_def)
  have replaced:
    "generationFailed\<lparr>isProcessing := False\<rparr>
       \<noteq> submitBatch carImages backgroundImage processingMode fresh generationFailed"
    for carImages backgroundImage processingMode fresh
    by (simp add: submitBatch_def generationFailed_def oneImage_def)
  from C2_error_is_not_refined
         [of generationFailed "generationFailed\<lparr>isProcessing := False\<rparr>" 0 "''id-1''"
             "sampleJob ''id-1'' Error None (Some ''Failed to fetch'')" fetchPng offline
             "''softer''"]
    reachable_generationFailed ends at found failed empty replaced
  have "processedImages (generationFailed\<lparr>isProcessing := False\<rparr>) ! 0
          = processedImages generationFailed ! 0"
    and "\<not> refineOffered (sampleJob ''id-1'' Error None (Some ''Failed to fetch''))"
    and "handleCorrectImage fetchPng offline ''id-1'' ''softer'' generationFailed
          = generationFailed\<lparr>globalError :=
              Some ''An internal error occurred while trying to refine the image.''\<rparr>"
    by blast+
  then show ?thesis
    using reachable_generationFailed ends at found failed empty by simp
qed

text \<open>
  Claim C2 as it was stated fails for the handler: the image of the sample run whose
  refinement failed has the status error and still has its result, and a call of the
  handler for it is accepted and, when the model answers with an image, makes it done.
\<close>

theorem C2_error_with_result_counterexample:
  "reachable refineFailed
   \<and> processedImages refineFailed
       = [sampleJob ''id-1'' Error (Some pngUrl) (Some ''Failed to fetch'')]
   \<and> status (sampleJob ''id-1'' Error (Some pngUrl) (Some ''Failed to fetch'')) = Error
   \<and> processedImages
        (handleCorrectImage fetchPng (answering imageResponse) ''id-1'' ''softer'' refineFailed)
       = [sampleJob ''id-1'' Done (Some pngUrl) None]
   \<and> status (sampleJob ''id-1'' Done (Some pngUrl) None) = Done"
  using reachable_refineFailed
  by (simp add: refineFailed_def oneImage_def sampleJob_def handleCorrectImage_def Let_def
      sample_refinement markRefining_def markDone_def pngUrl_def)

end
